theory Spec2Isabelle
  imports Complex_Main
begin

section \<open>Shared values\<close>

text \<open>
  The exceptions that the modelled parts of \<^verbatim>\<open>raw_dataset.py\<close> can raise. A function that can
  raise returns a sum, \<open>Inl\<close> carrying the exception.
\<close>

datatype error =
  AttributeError | NameError | ValueError | IndexError | AssertionError | KeyError | FileNotFoundError
  | FileExistsError | OSError

section \<open>\<^verbatim>\<open>get_strides\<close>\<close>

text \<open>
  \<^verbatim>\<open>np.divmod\<close> on integers is floor division with the remainder taking the sign of the
  divisor, as \<open>div\<close> and \<open>mod\<close> on \<open>int\<close> are; a zero divisor gives \<open>(0, 0)\<close> and a
  runtime warning, no exception.
\<close>

definition np_divmod :: "int \<Rightarrow> int \<Rightarrow> int \<times> int" where
  "np_divmod a b = (if b = 0 then (0, 0) else (a div b, a mod b))"

text \<open>\<^verbatim>\<open>np.zeros(k)\<close>: a negative dimension raises \<^verbatim>\<open>ValueError\<close>.\<close>

definition np_zeros :: "int \<Rightarrow> error + int list" where
  "np_zeros k = (if k < 0 then Inl ValueError else Inr (replicate (nat k) 0))"

text \<open>\<^verbatim>\<open>batches[1:] = v\<close>\<close>

definition assign_from_1 :: "int list \<Rightarrow> int \<Rightarrow> int list" where
  "assign_from_1 bs v = take 1 bs @ replicate (length bs - 1) v"

text \<open>\<^verbatim>\<open>batches[1:-1] = v\<close>: the slice is empty when the array has fewer than two entries.\<close>

definition assign_1_to_last :: "int list \<Rightarrow> int \<Rightarrow> int list" where
  "assign_1_to_last bs v =
     (if length bs < 2 then bs else take 1 bs @ replicate (length bs - 2) v @ [last bs])"

text \<open>\<^verbatim>\<open>batches[-1] = v\<close>: \<^verbatim>\<open>IndexError\<close> on an empty array.\<close>

definition assign_last :: "int list \<Rightarrow> int \<Rightarrow> error + int list" where
  "assign_last bs v = (if bs = [] then Inl IndexError else Inr (butlast bs @ [v]))"

text \<open>\<^verbatim>\<open>np.cumsum\<close>, the running sums.\<close>

fun cumsum_from :: "int \<Rightarrow> int list \<Rightarrow> int list" where
  "cumsum_from acc [] = []"
| "cumsum_from acc (x # xs) = (acc + x) # cumsum_from (acc + x) xs"

definition cumsum :: "int list \<Rightarrow> int list" where
  "cumsum xs = cumsum_from 0 xs"

text \<open>\<^verbatim>\<open>np.vstack([strides[:-1], strides[1:]]).T\<close>: the rows \<open>(strides[i], strides[i+1])\<close>.\<close>

definition vstack_T :: "int list \<Rightarrow> (int \<times> int) list" where
  "vstack_T s = zip (butlast s) (tl s)"

definition get_strides :: "int \<Rightarrow> int \<Rightarrow> error + (int \<times> int) list" where
  "get_strides n_structure batch_size =
     (case np_divmod n_structure batch_size of (n_elem, remain) \<Rightarrow>
        if \<not> remain > -1 then Inl AssertionError
        else if remain = 0 then
          (case np_zeros (n_elem + 1) of
             Inl e \<Rightarrow> Inl e
           | Inr batches \<Rightarrow> Inr (vstack_T (cumsum (assign_from_1 batches batch_size))))
        else
          (case np_zeros (n_elem + 2) of
             Inl e \<Rightarrow> Inl e
           | Inr batches \<Rightarrow>
               (case assign_last (assign_1_to_last batches batch_size) remain of
                  Inl e \<Rightarrow> Inl e
                | Inr batches' \<Rightarrow> Inr (vstack_T (cumsum batches')))))"

section \<open>\<^verbatim>\<open>CGDataBatch\<close>\<close>

text \<open>
  An array is seen along its first axis, as the list of its frames: \<^verbatim>\<open>a[::stride]\<close> and
  \<^verbatim>\<open>a.shape[0]\<close> are all the class does with the coordinates, forces and weights. A positive
  step keeps the frames \<open>0, stride, 2 * stride, ...\<close>; step zero raises \<^verbatim>\<open>ValueError\<close> in
  the slice itself; a negative step gives a view with a negative stride, on which
  \<^verbatim>\<open>torch.from_numpy\<close> raises \<^verbatim>\<open>ValueError\<close>, unless the array has no frame.
\<close>

definition strided :: "'a list \<Rightarrow> nat \<Rightarrow> 'a list" where
  "strided xs s = map (\<lambda>i. xs ! (i * s)) [0..<(length xs + s - 1) div s]"

definition from_numpy_strided :: "'a list \<Rightarrow> int \<Rightarrow> error + 'a list" where
  "from_numpy_strided xs stride =
     (if stride = 0 then Inl ValueError
      else if stride < 0 then (if xs = [] then Inr [] else Inl ValueError)
      else Inr (strided xs (nat stride)))"

text \<open>
  The weights are floating-point numbers. A finite one is given by its value; the weights
  that are passed are finite. The arithmetic of the tensor rounds, in a format and (for the
  sum) in an order that this file does not fix, so the two operations are parameters:
  \<open>torch_sum\<close> is \<^verbatim>\<open>torch.sum\<close> of a tensor of finite numbers, and \<open>float_div x s\<close> is
  the quotient of two finite numbers that are not both zero (rounded, or an infinity when it
  overflows or when \<open>s\<close> is a zero). What does not depend on rounding is fixed: zero
  divided by zero is NaN, a finite number divided by an infinity is a zero, and a NaN divisor
  gives NaN. No division raises.
\<close>

datatype tfloat = Fin real | PosInf | NegInf | NaN

definition torch_div :: "(real \<Rightarrow> real \<Rightarrow> tfloat) \<Rightarrow> real \<Rightarrow> tfloat \<Rightarrow> tfloat" where
  "torch_div float_div x s =
     (case s of
        Fin s' \<Rightarrow> if s' = 0 \<and> x = 0 then NaN else float_div x s'
      | PosInf \<Rightarrow> Fin 0
      | NegInf \<Rightarrow> Fin 0
      | NaN \<Rightarrow> NaN)"


record ('f, 'e, 'n) CGDataBatch =
  batch_size :: int
  stride :: int
  concat_forces :: bool
  cg_coords :: "'f list"
  cg_forces :: "'f list"
  cg_embeds :: 'e
  cg_prior_nls :: 'n
  weights :: "tfloat list option"
  n_structure :: int
  strides :: "(int \<times> int) list"
  n_elem :: nat

text \<open>
  \<^verbatim>\<open>CGDataBatch.__init__\<close>, with the two floating-point operations as its first
  parameters. The argument \<open>weights_arg\<close> is \<open>None\<close> for anything that is not an array.
\<close>

definition CGDataBatch_init ::
  "(real list \<Rightarrow> tfloat) \<Rightarrow> (real \<Rightarrow> real \<Rightarrow> tfloat)
     \<Rightarrow> 'f list \<Rightarrow> 'f list \<Rightarrow> 'e \<Rightarrow> 'n \<Rightarrow> int \<Rightarrow> int \<Rightarrow> real list option \<Rightarrow> bool
     \<Rightarrow> error + ('f, 'e, 'n) CGDataBatch" where
  "CGDataBatch_init torch_sum float_div coords forces embeds prior_nls batch_size_arg stride_arg
       weights_arg concat_arg =
     (case from_numpy_strided coords stride_arg of Inl e \<Rightarrow> Inl e | Inr cs \<Rightarrow>
      case from_numpy_strided forces stride_arg of Inl e \<Rightarrow> Inl e | Inr fs \<Rightarrow>
      case (case weights_arg of
              None \<Rightarrow> Inr None
            | Some w \<Rightarrow>
                (case from_numpy_strided w stride_arg of
                   Inl e \<Rightarrow> Inl e
                 | Inr ws \<Rightarrow>
                     Inr (Some (if stride_arg \<noteq> 1
                                then map (\<lambda>x. torch_div float_div x (torch_sum ws)) ws
                                else map Fin ws)))) of
        Inl e \<Rightarrow> Inl e
      | Inr wts \<Rightarrow>
          let n = int (length cs);
              bsz = (if batch_size_arg > n then n else batch_size_arg)
          in (case get_strides n bsz of
                Inl e \<Rightarrow> Inl e
              | Inr st \<Rightarrow>
                  Inr \<lparr>batch_size = bsz, stride = stride_arg, concat_forces = concat_arg,
                       cg_coords = cs, cg_forces = fs, cg_embeds = embeds,
                       cg_prior_nls = prior_nls, weights = wts, n_structure = n,
                       strides = st, n_elem = length st\<rparr>))"

text \<open>\<^verbatim>\<open>CGDataBatch.__len__\<close>\<close>

definition CGDataBatch_len :: "('f, 'e, 'n) CGDataBatch \<Rightarrow> nat" where
  "CGDataBatch_len b = n_elem b"

text \<open>
  The two floating-point operations on values where nothing is rounded, as the sums and
  quotients of the small integers and halves of the examples: the sum and the quotient are the
  exact ones.
\<close>

definition exact_sum :: "real list \<Rightarrow> tfloat" where
  "exact_sum ws = Fin (sum_list ws)"

definition exact_div :: "real \<Rightarrow> real \<Rightarrow> tfloat" where
  "exact_div x s = Fin (x / s)"

section \<open>Tables, arrays and the file system\<close>

text \<open>
  A Python \<^verbatim>\<open>dict\<close> keeps its keys in insertion order: an association list with distinct
  keys. \<open>map_of\<close> is the lookup, \<open>dict_set\<close> is \<^verbatim>\<open>d[k] = v\<close>.
\<close>

fun dict_set :: "('k \<times> 'v) list \<Rightarrow> 'k \<Rightarrow> 'v \<Rightarrow> ('k \<times> 'v) list" where
  "dict_set [] k v = [(k, v)]"
| "dict_set ((k', v') # d) k v = (if k' = k then (k, v) # d else (k', v') # dict_set d k v)"

type_synonym embedding = "(string \<times> int) list"

text \<open>\<^verbatim>\<open>max(d.values())\<close>: \<^verbatim>\<open>ValueError\<close> on an empty dictionary.\<close>

definition max_values :: "embedding \<Rightarrow> error + int" where
  "max_values d = (case map snd d of [] \<Rightarrow> Inl ValueError | v # vs \<Rightarrow> Inr (fold max vs v))"

text \<open>
  One row of the topology table that mdtraj makes of a structure (columns \<^verbatim>\<open>serial\<close>,
  \<^verbatim>\<open>name\<close>, \<^verbatim>\<open>resSeq\<close>, \<^verbatim>\<open>resName\<close>, \<^verbatim>\<open>chainID\<close>; \<^verbatim>\<open>element\<close> and \<^verbatim>\<open>segmentID\<close>
  are never read here), with the two columns \<^verbatim>\<open>mapped\<close> and \<^verbatim>\<open>type\<close> that the mapping adds.
  A table is the list of its rows; its index is the position in the list, as it is for the
  table of a loaded structure and for the CG table after \<^verbatim>\<open>cg_df.index = range(...)\<close>.
  The chain identifier is the index of the chain, never negative.
\<close>

record atom_row =
  serial :: int
  name :: string
  resSeq :: int
  resName :: string
  chainID :: nat
  mapped :: bool
  type :: int

text \<open>
  \<^verbatim>\<open>df.value_counts("chainID")\<close>: the number of rows of each chain, largest count first.
  Chains with the same count are listed here by increasing identifier; the code only sums a
  prefix of the counts, which does not depend on the order among equal counts.
\<close>

definition value_counts :: "nat list \<Rightarrow> (nat \<times> nat) list" where
  "value_counts cs =
     sort_key (\<lambda>p. - int (snd p)) (map (\<lambda>c. (c, count_list cs c)) (sort (remdups cs)))"

text \<open>
  \<^verbatim>\<open>cg_df.value_counts("chainID")[0 : cg_df.chainID[i]].sum()\<close>: an integer slice of a series
  is positional, so this is the sum of the first \<open>chainID\<close> counts.
\<close>

definition resSeq_offset :: "atom_row list \<Rightarrow> nat \<Rightarrow> int" where
  "resSeq_offset cg_df c = int (sum_list (map snd (take c (value_counts (map chainID cg_df)))))"

definition shift_resSeq :: "atom_row list \<Rightarrow> atom_row list" where
  "shift_resSeq cg_df = map (\<lambda>r. r\<lparr>resSeq := resSeq r + resSeq_offset cg_df (chainID r)\<rparr>) cg_df"

text \<open>\<^verbatim>\<open>cg_df.serial = [i + 1 for i in range(len(cg_df.index))]\<close>\<close>

definition renumber_serial :: "atom_row list \<Rightarrow> atom_row list" where
  "renumber_serial cg_df = map (\<lambda>(i, r). r\<lparr>serial := int i + 1\<rparr>) (enumerate 0 cg_df)"

text \<open>A numpy array: its shape and its entries in row-major order.\<close>

record ndarray =
  shape :: "nat list"
  data :: "real list"

text \<open>
  The topology of mdtraj: chains of residues of atoms, and a list of bonds. An atom has its
  index in the topology and its name.
\<close>

datatype md_atom = Atom (index: nat) (atom_name: string)

type_synonym md_residue = "md_atom list"
type_synonym md_chain = "md_residue list"

record md_topology =
  chains :: "md_chain list"
  bonds :: "(md_atom \<times> md_atom) list"

text \<open>\<^verbatim>\<open>chain.atoms\<close> and \<^verbatim>\<open>topology.atoms\<close>\<close>

definition chain_atoms :: "md_chain \<Rightarrow> md_atom list" where
  "chain_atoms ch = concat ch"

definition atoms :: "md_topology \<Rightarrow> md_atom list" where
  "atoms topo = concat (map chain_atoms (chains topo))"

text \<open>\<^verbatim>\<open>Topology.add_bond\<close> appends the bond, the atom of lower index first.\<close>

definition add_bond :: "md_topology \<Rightarrow> md_atom \<Rightarrow> md_atom \<Rightarrow> md_topology" where
  "add_bond topo atom1 atom2 =
     topo\<lparr>bonds := bonds topo @ [if index atom1 < index atom2 then (atom1, atom2) else (atom2, atom1)]\<rparr>"

type_synonym coord = "real \<times> real \<times> real"

record trajectory =
  n_atoms :: nat
  xyz :: "coord list list"
  topology :: md_topology

text \<open>
  \<^verbatim>\<open>traj.atom_slice(indices).xyz\<close>: the chosen atoms of every frame; an index that is not an
  atom of the trajectory raises \<^verbatim>\<open>IndexError\<close>.
\<close>

definition atom_slice_xyz :: "trajectory \<Rightarrow> nat list \<Rightarrow> error + coord list list" where
  "atom_slice_xyz traj idx =
     (if \<exists>i \<in> set idx. \<not> i < n_atoms traj then Inl IndexError
      else Inr (map (\<lambda>frame. map (\<lambda>i. frame ! i) idx) (xyz traj)))"

text \<open>A neighbour list as \<^verbatim>\<open>make_neighbor_list(tag, order, edge)\<close> packs it.\<close>

datatype neighbor_list = NeighborList string nat "nat list list"

text \<open>What a file holds.\<close>

datatype file_content =
    PdbFile "coord list list" "atom_row list"
  | NpyInts "int list"
  | NpyArray ndarray
  | NpyMap "nat list list"
  | PickleNls "(string \<times> neighbor_list) list"

text \<open>
  The world outside the object: files, directories, standard output, issued warnings. The
  operating system can refuse to create a directory or a file (a missing or unwritable
  parent, a file where a directory is expected, a full disk): \<open>os_error\<close> gives, for a
  path, the exception it answers with when the program asks to create that path, or
  \<open>None\<close> when it lets it happen.
\<close>

record world =
  files :: "string \<rightharpoonup> file_content"
  dirs :: "string list"
  stdout :: "string list"
  warned :: "string list"
  os_error :: "string \<rightharpoonup> error"

definition print :: "string \<Rightarrow> world \<Rightarrow> world" where
  "print msg w = w\<lparr>stdout := stdout w @ [msg]\<rparr>"

definition warn :: "string \<Rightarrow> world \<Rightarrow> world" where
  "warn msg w = w\<lparr>warned := warned w @ [msg]\<rparr>"

text \<open>\<^verbatim>\<open>os.path.exists\<close>; the empty path never exists.\<close>

definition path_exists :: "world \<Rightarrow> string \<Rightarrow> bool" where
  "path_exists w p = (p \<noteq> [] \<and> (p \<in> set (dirs w) \<or> files w p \<noteq> None))"

text \<open>The directories above a path: its prefixes that end before a separator.\<close>

definition parent_dirs :: "string \<Rightarrow> string list" where
  "parent_dirs p =
     map (\<lambda>i. take i p)
       (filter (\<lambda>i. p ! i = CHR ''/'' \<and> p ! (i - 1) \<noteq> CHR ''/'') [1..<length p])"

text \<open>
  \<^verbatim>\<open>os.makedirs\<close> (without \<^verbatim>\<open>exist_ok\<close>): \<^verbatim>\<open>FileNotFoundError\<close> on the empty path,
  \<^verbatim>\<open>FileExistsError\<close> on a path that exists, else the exception of the operating system if
  it refuses, else the directory is there afterwards, with the directories above it that
  were missing.
\<close>

definition makedirs :: "string \<Rightarrow> world \<Rightarrow> error + world" where
  "makedirs p w =
     (if p = [] then Inl FileNotFoundError
      else if path_exists w p then Inl FileExistsError
      else (case os_error w p of
              Some e \<Rightarrow> Inl e
            | None \<Rightarrow>
                Inr (w\<lparr>dirs := dirs w @ filter (\<lambda>q. q \<notin> set (dirs w)) (parent_dirs p) @ [p]\<rparr>)))"

text \<open>
  \<^verbatim>\<open>np.save\<close>, \<^verbatim>\<open>save_pdb\<close> and \<^verbatim>\<open>pickle.dump\<close> into an opened file write (or overwrite) one
  file, or raise the exception of the operating system and write nothing.
\<close>

definition write_file :: "string \<Rightarrow> file_content \<Rightarrow> world \<Rightarrow> error + world" where
  "write_file p c w =
     (case os_error w p of
        Some e \<Rightarrow> Inl e
      | None \<Rightarrow> Inr (w\<lparr>files := (files w)(p \<mapsto> c)\<rparr>))"

text \<open>\<^verbatim>\<open>os.path.join\<close> of two components on a POSIX system.\<close>

definition os_path_join :: "string \<Rightarrow> string \<Rightarrow> string" where
  "os_path_join a b =
     (if b \<noteq> [] \<and> hd b = CHR ''/'' then b
      else if a = [] \<or> last a = CHR ''/'' then a @ b
      else a @ ''/'' @ b)"

section \<open>\<^verbatim>\<open>SampleCollection\<close>\<close>

text \<open>
  The attributes of a \<^verbatim>\<open>SampleCollection\<close>. Only \<^verbatim>\<open>name\<close> and \<^verbatim>\<open>tag\<close> are set by the
  constructor; every other attribute is absent (\<open>None\<close>, what \<^verbatim>\<open>hasattr\<close> tests) until a
  method sets it. \<^verbatim>\<open>N_term\<close> and \<^verbatim>\<open>C_term\<close> hold \<^verbatim>\<open>None\<close> or a name once they are set. The
  attribute \<^verbatim>\<open>name\<close> is the field \<open>sample_name\<close>, \<open>name\<close> being a column of the table.
\<close>

record SampleCollection =
  sample_name :: string
  tag :: string
  top_dataframe :: "atom_row list option"
  input_traj :: "trajectory option"
  embedding_dict :: "embedding option"
  cg_atom_indices :: "nat list option"
  cg_dataframe :: "atom_row list option"
  cg_map :: "nat list list option"
  N_term :: "string option option"
  C_term :: "string option option"
  force_map :: "ndarray option"
  cg_coords :: "ndarray option"
  cg_forces :: "ndarray option"

text \<open>\<^verbatim>\<open>SampleCollection.__init__\<close>\<close>

definition SampleCollection_init :: "string \<Rightarrow> string \<Rightarrow> SampleCollection" where
  "SampleCollection_init name_arg tag_arg =
     \<lparr>sample_name = name_arg, tag = tag_arg, top_dataframe = None, input_traj = None,
      embedding_dict = None, cg_atom_indices = None, cg_dataframe = None, cg_map = None,
      N_term = None, C_term = None, force_map = None, cg_coords = None, cg_forces = None\<rparr>"

text \<open>
  A method ends by returning a value or by raising; in both cases the object and the world
  are left as the statements executed so far have made them.
\<close>

datatype 'a outcome = Raise error | Return 'a

subsection \<open>\<^verbatim>\<open>apply_cg_mapping\<close>\<close>

text \<open>
  The selection matrix: row \<open>i\<close> is zero but for a one in column \<open>cg_atom_idx[i]\<close>
  (\<^verbatim>\<open>cg_map[[i for i in range(len(cg_atom_idx))], cg_atom_idx] = 1\<close>).
\<close>

definition make_cg_map :: "nat list \<Rightarrow> nat \<Rightarrow> nat list list" where
  "make_cg_map cg_atom_idx n = map (\<lambda>i. (replicate n 0)[i := 1]) cg_atom_idx"

text \<open>
  \<^verbatim>\<open>apply_cg_mapping\<close>. Two things it uses are not in this file and are parameters:
  \<open>embedding_maps\<close>, the names that \<^verbatim>\<open>eval(embedding_dict)\<close> can resolve (an unknown name
  raises \<^verbatim>\<open>NameError\<close>), and \<open>map_cg_topology\<close>, the helper of \<^verbatim>\<open>utils\<close> applied to every
  row, which sets the columns \<^verbatim>\<open>mapped\<close> and \<^verbatim>\<open>type\<close>. The argument \<open>embedding_dict_arg\<close> is
  \<open>Some\<close> of the string passed, \<open>None\<close> for a value that is not a string.
\<close>

definition apply_cg_mapping ::
  "(string \<rightharpoonup> embedding)
   \<Rightarrow> (string list \<Rightarrow> string \<Rightarrow> string list option \<Rightarrow> atom_row \<Rightarrow> atom_row)
   \<Rightarrow> string list \<Rightarrow> string \<Rightarrow> string option \<Rightarrow> string list option
   \<Rightarrow> SampleCollection \<times> world \<Rightarrow> unit outcome \<times> SampleCollection \<times> world" where
  "apply_cg_mapping embedding_maps map_cg_topology cg_atoms embedding_function embedding_dict_arg
       skip_residues sw =
     (case sw of (s, w) \<Rightarrow>
      case (case embedding_dict_arg of
              None \<Rightarrow> Inr s
            | Some nm \<Rightarrow>
                (case embedding_maps nm of
                   None \<Rightarrow> Inl NameError
                 | Some d \<Rightarrow> Inr (s\<lparr>embedding_dict := Some d\<rparr>))) of
        Inl e \<Rightarrow> (Raise e, s, w)
      | Inr s1 \<Rightarrow>
          (case top_dataframe s1 of
             None \<Rightarrow> (Raise AttributeError, s1, w)
           | Some top_df \<Rightarrow>
               let top_df' = map (map_cg_topology cg_atoms embedding_function skip_residues) top_df;
                   cg_atom_idx = filter (\<lambda>i. mapped (top_df' ! i)) [0..<length top_df'];
                   cg_df = shift_resSeq (renumber_serial (filter mapped top_df'));
                   s2 = s1\<lparr>top_dataframe := Some top_df', cg_atom_indices := Some cg_atom_idx,
                          cg_dataframe := Some cg_df\<rparr>
               in (case input_traj s2 of
                     None \<Rightarrow> (Raise AttributeError, s2, w)
                   | Some traj \<Rightarrow>
                       if \<exists>i \<in> set cg_atom_idx. \<not> i < n_atoms traj then (Raise IndexError, s2, w)
                       else
                         let cg_map' = make_cg_map cg_atom_idx (n_atoms traj);
                             w1 = (if \<not> list_all (\<lambda>row. sum_list row = 1) cg_map'
                                   then warn ''WARNING: Slice mapping matrix is not unique.'' w
                                   else w);
                             w2 = (if \<not> list_all (\<lambda>row. count_list row 1 = 1) cg_map'
                                   then warn ''WARNING: Slice mapping matrix is not linear.'' w1
                                   else w1)
                         in (Return (),
                             s2\<lparr>cg_map := Some cg_map', N_term := Some None, C_term := Some None\<rparr>,
                             w2))))"

text \<open>
  Modelled from the spec: \<^verbatim>\<open>map_cg_topology\<close> of \<^verbatim>\<open>utils\<close>, missing from the sources. A row
  is retained when its atom name is one of \<open>cg_atoms\<close> and its residue name is not skipped; a
  retained row gets the embedding code that the named embedding function gives it. The
  table \<open>embedding_functions\<close> resolves the name of the function. It is used for concrete
  runs only.
\<close>

definition map_cg_topology_model ::
  "(string \<Rightarrow> atom_row \<Rightarrow> int)
   \<Rightarrow> string list \<Rightarrow> string \<Rightarrow> string list option \<Rightarrow> atom_row \<Rightarrow> atom_row" where
  "map_cg_topology_model embedding_functions cg_atoms embedding_function skip_residues r =
     (if name r \<in> set cg_atoms
         \<and> (case skip_residues of None \<Rightarrow> True | Some sk \<Rightarrow> resName r \<notin> set sk)
      then r\<lparr>mapped := True, type := embedding_functions embedding_function r\<rparr>
      else r\<lparr>mapped := False\<rparr>)"

subsection \<open>\<^verbatim>\<open>add_terminal_embeddings\<close>\<close>

text \<open>\<^verbatim>\<open>Series.unique()\<close>: the distinct values in order of first appearance.\<close>

definition unique :: "'a list \<Rightarrow> 'a list" where
  "unique xs = rev (remdups (rev xs))"

text \<open>\<^verbatim>\<open>Series.min()\<close> and \<^verbatim>\<open>Series.max()\<close>; of an empty series they are NaN, here \<open>None\<close>.\<close>

definition series_min :: "int list \<Rightarrow> int option" where
  "series_min xs = (case xs of [] \<Rightarrow> None | v # vs \<Rightarrow> Some (fold min vs v))"

definition series_max :: "int list \<Rightarrow> int option" where
  "series_max xs = (case xs of [] \<Rightarrow> None | v # vs \<Rightarrow> Some (fold max vs v))"

text \<open>
  The first loop over the chains: the indices of the rows of the chain that have the name
  \<open>N_term\<close> and the least \<^verbatim>\<open>resSeq\<close> of the chain. A comparison with NaN is false.
\<close>

definition N_term_atom :: "atom_row list \<Rightarrow> string \<Rightarrow> nat list" where
  "N_term_atom df_cg N_term_arg =
     concat (map (\<lambda>chain.
         let chain_resseq_min = series_min (map resSeq (filter (\<lambda>r. chainID r = chain) df_cg))
         in filter (\<lambda>i. Some (resSeq (df_cg ! i)) = chain_resseq_min
                        \<and> name (df_cg ! i) = N_term_arg
                        \<and> chainID (df_cg ! i) = chain) [0..<length df_cg])
       (unique (map chainID df_cg)))"

definition C_term_atom :: "atom_row list \<Rightarrow> string \<Rightarrow> nat list" where
  "C_term_atom df_cg C_term_arg =
     concat (map (\<lambda>chain.
         let chain_resseq_max = series_max (map resSeq (filter (\<lambda>r. chainID r = chain) df_cg))
         in filter (\<lambda>i. Some (resSeq (df_cg ! i)) = chain_resseq_max
                        \<and> name (df_cg ! i) = C_term_arg
                        \<and> chainID (df_cg ! i) = chain) [0..<length df_cg])
       (unique (map chainID df_cg)))"

text \<open>\<^verbatim>\<open>for idx in ...: self.cg_dataframe.at[idx, "type"] = code\<close>\<close>

definition set_types :: "nat list \<Rightarrow> int \<Rightarrow> atom_row list \<Rightarrow> atom_row list" where
  "set_types idxs code df = fold (\<lambda>idx d. d[idx := (d ! idx)\<lparr>type := code\<rparr>]) idxs df"

text \<open>
  \<^verbatim>\<open>if key not in self.embedding_dict: self.embedding_dict[key] = max(...) + 1\<close>, followed by
  the read of \<^verbatim>\<open>self.embedding_dict[key]\<close>: the dictionary afterwards and the code of the key.
\<close>

definition terminal_code :: "string \<Rightarrow> embedding \<Rightarrow> error + (embedding \<times> int)" where
  "terminal_code key d =
     (case map_of d key of
        Some c \<Rightarrow> Inr (d, c)
      | None \<Rightarrow>
          (case max_values d of
             Inl e \<Rightarrow> Inl e
           | Inr m \<Rightarrow> Inr (dict_set d key (m + 1), m + 1)))"

text \<open>The block \<^verbatim>\<open>if N_term is not None: ...\<close>\<close>

definition assign_N_term :: "string option \<Rightarrow> SampleCollection \<Rightarrow> unit outcome \<times> SampleCollection" where
  "assign_N_term N_term_arg s =
     (case N_term_arg of
        None \<Rightarrow> (Return (), s)
      | Some n \<Rightarrow>
          (case embedding_dict s of
             None \<Rightarrow> (Raise AttributeError, s)
           | Some d \<Rightarrow>
               (case terminal_code ''N_term'' d of
                  Inl e \<Rightarrow> (Raise e, s)
                | Inr (d', code) \<Rightarrow>
                    (case cg_dataframe s of
                       None \<Rightarrow> (Raise AttributeError, s\<lparr>embedding_dict := Some d'\<rparr>)
                     | Some df_cg \<Rightarrow>
                         (Return (),
                          s\<lparr>embedding_dict := Some d',
                            cg_dataframe := Some (set_types (N_term_atom df_cg n) code df_cg)\<rparr>)))))"

text \<open>The block \<^verbatim>\<open>if C_term is not None: ...\<close>\<close>

definition assign_C_term :: "string option \<Rightarrow> SampleCollection \<Rightarrow> unit outcome \<times> SampleCollection" where
  "assign_C_term C_term_arg s =
     (case C_term_arg of
        None \<Rightarrow> (Return (), s)
      | Some c \<Rightarrow>
          (case embedding_dict s of
             None \<Rightarrow> (Raise AttributeError, s)
           | Some d \<Rightarrow>
               (case terminal_code ''C_term'' d of
                  Inl e \<Rightarrow> (Raise e, s)
                | Inr (d', code) \<Rightarrow>
                    (case cg_dataframe s of
                       None \<Rightarrow> (Raise AttributeError, s\<lparr>embedding_dict := Some d'\<rparr>)
                     | Some df_cg \<Rightarrow>
                         (Return (),
                          s\<lparr>embedding_dict := Some d',
                            cg_dataframe := Some (set_types (C_term_atom df_cg c) code df_cg)\<rparr>)))))"

definition add_terminal_embeddings ::
  "string option \<Rightarrow> string option \<Rightarrow> SampleCollection \<times> world
     \<Rightarrow> unit outcome \<times> SampleCollection \<times> world" where
  "add_terminal_embeddings N_term_arg C_term_arg sw =
     (case sw of (s, w) \<Rightarrow>
      case cg_dataframe s of
        None \<Rightarrow> (Raise AttributeError, s, w)
      | Some df_cg \<Rightarrow>
          let s1 = s\<lparr>N_term := Some N_term_arg, C_term := Some C_term_arg\<rparr>
          in (case assign_N_term N_term_arg s1 of
                (Raise e, s2) \<Rightarrow> (Raise e, s2, w)
              | (Return u, s2) \<Rightarrow>
                  (case assign_C_term C_term_arg s2 of (r, s3) \<Rightarrow> (r, s3, w))))"

subsection \<open>\<^verbatim>\<open>process_coords_forces\<close>\<close>

text \<open>
  \<^verbatim>\<open>slice_coord_forces\<close> of \<^verbatim>\<open>utils\<close> is not in this file and is a parameter; it returns the
  CG coordinates, the CG forces and the force map, or raises.
\<close>

definition process_coords_forces ::
  "(ndarray \<Rightarrow> ndarray \<Rightarrow> nat list list \<Rightarrow> string \<Rightarrow> int \<Rightarrow> int option
      \<Rightarrow> error + (ndarray \<times> ndarray \<times> ndarray))
   \<Rightarrow> ndarray \<Rightarrow> ndarray \<Rightarrow> string \<Rightarrow> int \<Rightarrow> int option
   \<Rightarrow> SampleCollection \<times> world
   \<Rightarrow> (ndarray \<times> ndarray) option outcome \<times> SampleCollection \<times> world" where
  "process_coords_forces slice_coord_forces coords forces mapping force_stride batch_size_arg sw =
     (case sw of (s, w) \<Rightarrow>
      if shape coords \<noteq> shape forces then
        (Return None, s,
         warn ''Cannot process coordinates and forces: mismatch between array shapes.'' w)
      else
        (case cg_map s of
           None \<Rightarrow> (Raise AttributeError, s, w)
         | Some m \<Rightarrow>
             (case slice_coord_forces coords forces m mapping force_stride batch_size_arg of
                Inl e \<Rightarrow> (Raise e, s, w)
              | Inr (cg_coords', cg_forces', force_map') \<Rightarrow>
                  (Return (Some (cg_coords', cg_forces')),
                   s\<lparr>force_map := Some force_map', cg_coords := Some cg_coords',
                     cg_forces := Some cg_forces'\<rparr>,
                   w))))"

subsection \<open>\<^verbatim>\<open>save_cg_output\<close>\<close>

text \<open>
  The test \<^verbatim>\<open>if cg_coords == None\<close> on an argument. For \<^verbatim>\<open>None\<close> it holds. For an array the
  comparison is elementwise and gives an array of \<^verbatim>\<open>False\<close>, whose truth value is false when
  it has exactly one entry and raises \<^verbatim>\<open>ValueError\<close> otherwise (ambiguous with several
  entries, refused with none).
\<close>

definition eq_None :: "ndarray option \<Rightarrow> error + bool" where
  "eq_None a =
     (case a of
        None \<Rightarrow> Inr True
      | Some arr \<Rightarrow> if length (data arr) = 1 then Inr False else Inl ValueError)"

text \<open>
  The block that saves the coordinates (and, with the other attribute, file name and
  message, the forces): \<open>arg\<close> is the argument of the call, \<open>attr\<close> the attribute. When it
  raises, it has changed nothing.
\<close>

definition save_array ::
  "ndarray option \<Rightarrow> ndarray option \<Rightarrow> string \<Rightarrow> string \<Rightarrow> world \<Rightarrow> error + world" where
  "save_array arg attr path msg w =
     (case eq_None arg of
        Inl e \<Rightarrow> Inl e
      | Inr True \<Rightarrow>
          (case attr of
             None \<Rightarrow> Inr (print msg w)
           | Some a \<Rightarrow> write_file path (NpyArray a) w)
      | Inr False \<Rightarrow>
          (case arg of
             None \<Rightarrow> Inr w
           | Some a \<Rightarrow> write_file path (NpyArray a) w))"

text \<open>
  \<^verbatim>\<open>save_cg_output\<close>. \<^verbatim>\<open>get_output_tag\<close> of \<^verbatim>\<open>utils\<close> is not in this file and is a
  parameter. The object is only read. The directory is created, when it does not exist,
  before anything else is looked at; an exception leaves the world as it was when it was
  raised.
\<close>

definition save_cg_output ::
  "(string list \<Rightarrow> string \<Rightarrow> string)
   \<Rightarrow> string \<Rightarrow> bool \<Rightarrow> bool \<Rightarrow> ndarray option \<Rightarrow> ndarray option
   \<Rightarrow> SampleCollection \<times> world \<Rightarrow> unit outcome \<times> SampleCollection \<times> world" where
  "save_cg_output get_output_tag save_dir save_coord_force save_cg_maps cg_coords_arg cg_forces_arg sw =
     (case sw of (s, w) \<Rightarrow>
      case (if \<not> path_exists w save_dir then makedirs save_dir w else Inr w) of
        Inl e \<Rightarrow> (Raise e, s, w)
      | Inr w0 \<Rightarrow>
      (case cg_atom_indices s of
         None \<Rightarrow>
           (Return (), s, print ''CG mapping must be applied before outputs can be saved.'' w0)
       | Some idx \<Rightarrow>
           let save_templ = os_path_join save_dir (get_output_tag [tag s, sample_name s] ''before'')
           in (case input_traj s of
                 None \<Rightarrow> (Raise AttributeError, s, w0)
               | Some traj \<Rightarrow>
               (case atom_slice_xyz traj idx of
                  Inl e \<Rightarrow> (Raise e, s, w0)
                | Inr cg_xyz \<Rightarrow>
                (case cg_dataframe s of
                   None \<Rightarrow> (Raise AttributeError, s, w0)
                 | Some cg_df \<Rightarrow>
                 (case write_file (save_templ @ ''cg_structure.pdb'') (PdbFile cg_xyz cg_df) w0 of
                    Inl e \<Rightarrow> (Raise e, s, w0)
                  | Inr w1 \<Rightarrow>
                  (case write_file (save_templ @ ''cg_embeds.npy'') (NpyInts (map type cg_df)) w1 of
                     Inl e \<Rightarrow> (Raise e, s, w1)
                   | Inr w2 \<Rightarrow>
                   (case (if save_coord_force
                          then (case save_array cg_coords_arg (cg_coords s)
                                       (save_templ @ ''cg_coords.npy'')
                                       ''No coordinates found; only CG structure, embeddings and loaded forces will be saved.''
                                       w2 of
                                  Inl e \<Rightarrow> Inl (e, w2)
                                | Inr w3 \<Rightarrow>
                                    (case save_array cg_forces_arg (cg_forces s)
                                            (save_templ @ ''cg_forces.npy'')
                                            ''No forces found;  only CG structure, embeddings, and loaded coordinates will be saved.''
                                            w3 of
                                       Inl e \<Rightarrow> Inl (e, w3)
                                     | Inr w4 \<Rightarrow> Inr w4))
                          else Inr w2) of
                      Inl (e, w') \<Rightarrow> (Raise e, s, w')
                    | Inr w4 \<Rightarrow>
                        if save_cg_maps then
                          (case (case cg_map s of
                                   None \<Rightarrow> Inr (print ''No cg coordinate map found. Skipping save.'' w4)
                                 | Some m \<Rightarrow>
                                     write_file (save_templ @ ''cg_coord_map.npy'') (NpyMap m) w4) of
                             Inl e \<Rightarrow> (Raise e, s, w4)
                           | Inr w5 \<Rightarrow>
                               (case (case force_map s of
                                        None \<Rightarrow> Inr (print ''No cg force map found. Skipping save.'' w5)
                                      | Some fm \<Rightarrow>
                                          write_file (save_templ @ ''cg_force_map.npy'') (NpyArray fm) w5) of
                                  Inl e \<Rightarrow> (Raise e, s, w5)
                                | Inr w6 \<Rightarrow> (Return (), s, w6)))
                        else (Return (), s, w4)))))))))"

subsection \<open>\<^verbatim>\<open>get_prior_nls\<close>\<close>

text \<open>
  \<^verbatim>\<open>for i, _ in enumerate(ch_atoms[:-1]): cg_top.add_bond(ch_atoms[i], ch_atoms[i + 1])\<close>
\<close>

definition add_chain_bonds :: "md_atom list \<Rightarrow> md_topology \<Rightarrow> md_topology" where
  "add_chain_bonds ch_atoms cg_top =
     fold (\<lambda>i t. add_bond t (ch_atoms ! i) (ch_atoms ! (i + 1))) [0..<length (butlast ch_atoms)] cg_top"

text \<open>
  The extra step for the CA case: when the set of the atom names of the topology is
  \<open>{''CA''}\<close>, every chain gets a bond between each atom and the next one of the chain.
\<close>

definition add_CA_bonds :: "md_topology \<Rightarrow> md_topology" where
  "add_CA_bonds cg_top =
     (if set (map atom_name (atoms cg_top)) = {''CA''}
      then fold (\<lambda>chain t. add_chain_bonds (chain_atoms chain) t) (chains cg_top) cg_top
      else cg_top)"

text \<open>\<^verbatim>\<open>kwargs[key]\<close>\<close>

definition kwarg :: "(string \<times> string) list \<Rightarrow> string \<Rightarrow> error + string" where
  "kwarg kwargs key = (case map_of kwargs key of None \<Rightarrow> Inl KeyError | Some v \<Rightarrow> Inr v)"

text \<open>
  \<^verbatim>\<open>get_prior_nls\<close>. Parameters, for what is not in this file: \<open>separate_termini\<close> reads the
  attribute of a prior builder (false when it has none), \<open>get_terminal_atoms\<close> is the helper
  of \<^verbatim>\<open>utils\<close> that records the terminal atoms in the builder it is given,
  \<open>topology_subset\<close> is the topology of \<^verbatim>\<open>atom_slice\<close>, \<open>get_edges_and_orders\<close> is the helper
  of \<^verbatim>\<open>utils\<close> that lists tag, order and edges of every prior, and \<open>get_output_tag\<close> is as
  above. The conversion of the edges to tensors does not change them. \<open>save_nls\<close> is true
  when the caller does not pass it.
\<close>

definition get_prior_nls ::
  "('b \<Rightarrow> bool) \<Rightarrow> ('b \<Rightarrow> atom_row list \<Rightarrow> string option \<Rightarrow> string option \<Rightarrow> 'b)
   \<Rightarrow> (md_topology \<Rightarrow> nat list \<Rightarrow> md_topology)
   \<Rightarrow> ('b list \<Rightarrow> md_topology \<Rightarrow> (string \<times> nat \<times> nat list list) list)
   \<Rightarrow> (string list \<Rightarrow> string \<Rightarrow> string)
   \<Rightarrow> 'b list \<Rightarrow> bool \<Rightarrow> (string \<times> string) list
   \<Rightarrow> SampleCollection \<times> world
   \<Rightarrow> (string \<times> neighbor_list) list outcome \<times> SampleCollection \<times> world" where
  "get_prior_nls separate_termini get_terminal_atoms topology_subset get_edges_and_orders
       get_output_tag prior_builders save_nls kwargs sw =
     (case sw of (s, w) \<Rightarrow>
      case (if \<exists>pb \<in> set prior_builders. separate_termini pb
            then (case (cg_dataframe s, N_term s, C_term s) of
                    (Some df, Some nt, Some ct) \<Rightarrow>
                      Inr (map (\<lambda>pb. if separate_termini pb then get_terminal_atoms pb df nt ct else pb)
                             prior_builders)
                  | _ \<Rightarrow> Inl AttributeError)
            else Inr prior_builders) of
        Inl e \<Rightarrow> (Raise e, s, w)
      | Inr prior_builders' \<Rightarrow>
          (case (input_traj s, cg_atom_indices s) of
             (Some traj, Some idx) \<Rightarrow>
               let cg_top = add_CA_bonds (topology_subset (topology traj) idx);
                   all_edges_and_orders = get_edges_and_orders prior_builders' cg_top;
                   prior_nls = fold (\<lambda>(tg, order, edge) d. dict_set d tg (NeighborList tg order edge))
                                 all_edges_and_orders []
               in if save_nls then
                    (case kwarg kwargs ''save_dir'' of
                       Inl e \<Rightarrow> (Raise e, s, w)
                     | Inr save_dir \<Rightarrow>
                         (case kwarg kwargs ''prior_tag'' of
                            Inl e \<Rightarrow> (Raise e, s, w)
                          | Inr prior_tag \<Rightarrow>
                              (case write_file
                                      (os_path_join save_dir
                                         (get_output_tag [tag s, sample_name s] ''before''
                                            @ ''prior_nls_'' @ prior_tag @ ''.pkl''))
                                      (PickleNls prior_nls) w of
                                 Inl e \<Rightarrow> (Raise e, s, w)
                               | Inr w' \<Rightarrow> (Return prior_nls, s, w'))))
                  else (Return prior_nls, s, w)
           | _ \<Rightarrow> (Raise AttributeError, s, w)))"

section \<open>Helpers of \<^verbatim>\<open>utils\<close> and sample data for concrete runs\<close>

text \<open>
  Modelled from the spec: \<^verbatim>\<open>slice_coord_forces\<close> of \<^verbatim>\<open>utils\<close>, missing from the sources,
  for the strategy \<^verbatim>\<open>slice_aggregate\<close>, the direct application of the selection matrix:
  coordinates and forces of mapped atoms pass through unchanged, unmapped atoms are dropped,
  and the force map that is reported is the selection matrix. The arrays have the shape
  \<open>[n_frames, n_atoms, 3]\<close>. Any other strategy is left out (\<^verbatim>\<open>ValueError\<close>). It is used for
  concrete runs only.
\<close>

definition apply_selection :: "nat list list \<Rightarrow> ndarray \<Rightarrow> ndarray" where
  "apply_selection m x =
     (case shape x of
        [nf, na, d] \<Rightarrow>
          \<lparr>shape = [nf, length m, d],
           data = concat (map (\<lambda>f. concat (map (\<lambda>row.
                     map (\<lambda>k. sum_list (map (\<lambda>a. real (row ! a) * (data x ! ((f * na + a) * d + k)))
                                          [0..<na]))
                       [0..<d]) m)) [0..<nf])\<rparr>
      | _ \<Rightarrow> x)"

definition slice_coord_forces_model ::
  "ndarray \<Rightarrow> ndarray \<Rightarrow> nat list list \<Rightarrow> string \<Rightarrow> int \<Rightarrow> int option
     \<Rightarrow> error + (ndarray \<times> ndarray \<times> ndarray)" where
  "slice_coord_forces_model coords forces m mapping force_stride batch_size_arg =
     (if mapping = ''slice_aggregate''
      then Inr (apply_selection m coords, apply_selection m forces,
                \<lparr>shape = [length m, (case m of [] \<Rightarrow> 0 | row # _ \<Rightarrow> length row)],
                 data = map real (concat m)\<rparr>)
      else Inl ValueError)"

text \<open>
  Modelled from the spec: \<^verbatim>\<open>get_output_tag\<close> of \<^verbatim>\<open>utils\<close>, missing from the sources. The
  prefix of the artifacts of a molecule combines the dataset tag and the molecule name;
  here each part is followed by an underscore. It is used for concrete runs only.
\<close>

definition get_output_tag_model :: "string list \<Rightarrow> string \<Rightarrow> string" where
  "get_output_tag_model parts placement = concat (map (\<lambda>p. p @ ''_'') parts)"

text \<open>A row of the table of a loaded structure, before any mapping.\<close>

definition demo_row :: "int \<Rightarrow> string \<Rightarrow> int \<Rightarrow> nat \<Rightarrow> atom_row" where
  "demo_row ser nm rs ch =
     \<lparr>serial = ser, name = nm, resSeq = rs, resName = ''ALA'', chainID = ch, mapped = False,
      type = 0\<rparr>"

text \<open>An embedding dictionary and an embedding function that looks the atom name up in it.\<close>

definition demo_embedding :: embedding where
  "demo_embedding = [(''N'', 1), (''CA'', 2), (''C'', 3)]"

definition demo_embedding_maps :: "string \<rightharpoonup> embedding" where
  "demo_embedding_maps = [''demo_embedding'' \<mapsto> demo_embedding]"

definition demo_embedding_functions :: "string \<Rightarrow> atom_row \<Rightarrow> int" where
  "demo_embedding_functions f r = (case map_of demo_embedding (name r) of None \<Rightarrow> 0 | Some c \<Rightarrow> c)"

definition demo_world :: world where
  "demo_world =
     \<lparr>files = Map.empty, dirs = [], stdout = [], warned = [], os_error = Map.empty\<rparr>"

text \<open>
  A homodimer whose two chains have the residues 1, 2 and 4 (residue 3 is missing from the
  structure), with the atoms N and CA of every residue.
\<close>

definition demo_gap_dimer :: "atom_row list" where
  "demo_gap_dimer =
     [demo_row 1 ''N'' 1 0, demo_row 2 ''CA'' 1 0, demo_row 3 ''N'' 2 0, demo_row 4 ''CA'' 2 0,
      demo_row 5 ''N'' 4 0, demo_row 6 ''CA'' 4 0,
      demo_row 7 ''N'' 1 1, demo_row 8 ''CA'' 1 1, demo_row 9 ''N'' 2 1, demo_row 10 ''CA'' 2 1,
      demo_row 11 ''N'' 4 1, demo_row 12 ''CA'' 4 1]"

definition demo_gap_dimer_collection :: SampleCollection where
  "demo_gap_dimer_collection =
     (SampleCollection_init ''dimer'' ''demo'')
       \<lparr>top_dataframe := Some demo_gap_dimer,
        input_traj := Some \<lparr>n_atoms = 12, xyz = [], topology = \<lparr>chains = [], bonds = []\<rparr>\<rparr>\<rparr>"

text \<open>One residue with the atoms N and CA, one frame of coordinates and of forces.\<close>

definition demo_residue :: "atom_row list" where
  "demo_residue = [demo_row 1 ''N'' 1 0, demo_row 2 ''CA'' 1 0]"

definition demo_residue_collection :: SampleCollection where
  "demo_residue_collection =
     (SampleCollection_init ''mono'' ''demo'')
       \<lparr>top_dataframe := Some demo_residue,
        input_traj := Some \<lparr>n_atoms = 2, xyz = [[(0, 0, 0), (1, 1, 1)]],
                            topology = \<lparr>chains = [], bonds = []\<rparr>\<rparr>\<rparr>"

definition demo_coords :: ndarray where
  "demo_coords = \<lparr>shape = [1, 2, 3], data = [0, 0, 0, 1, 1, 1]\<rparr>"

definition demo_forces :: ndarray where
  "demo_forces = \<lparr>shape = [1, 2, 3], data = [5, 5, 5, 7, 7, 7]\<rparr>"

text \<open>The mapping of the homodimer onto its CA atoms.\<close>

definition demo_gap_dimer_run :: "unit outcome \<times> SampleCollection \<times> world" where
  "demo_gap_dimer_run =
     apply_cg_mapping demo_embedding_maps (map_cg_topology_model demo_embedding_functions)
       [''CA''] ''embed'' (Some ''demo_embedding'') None (demo_gap_dimer_collection, demo_world)"

text \<open>The single residue mapped onto its CA atom.\<close>

definition demo_mapped :: "SampleCollection \<times> world" where
  "demo_mapped =
     snd (apply_cg_mapping demo_embedding_maps (map_cg_topology_model demo_embedding_functions)
            [''CA''] ''embed'' (Some ''demo_embedding'') None (demo_residue_collection, demo_world))"

text \<open>Then its coordinates and forces are projected.\<close>

definition demo_projected :: "SampleCollection \<times> world" where
  "demo_projected =
     snd (process_coords_forces slice_coord_forces_model demo_coords demo_forces
            ''slice_aggregate'' 100 None demo_mapped)"

text \<open>Then it is mapped again, onto N and CA.\<close>

definition demo_remapped :: "unit outcome \<times> SampleCollection \<times> world" where
  "demo_remapped =
     apply_cg_mapping demo_embedding_maps (map_cg_topology_model demo_embedding_functions)
       [''N'', ''CA''] ''embed'' (Some ''demo_embedding'') None demo_projected"

text \<open>Then it is saved.\<close>

definition demo_remap_run :: "unit outcome \<times> SampleCollection \<times> world" where
  "demo_remap_run =
     save_cg_output get_output_tag_model ''out'' True True None None (snd demo_remapped)"

text \<open>
  Three chains of 3, 5 and 3 single-bead residues, each chain numbered from 1 without gaps,
  as a CG table before the shift of \<^verbatim>\<open>resSeq\<close>.
\<close>

definition demo_three_chains :: "atom_row list" where
  "demo_three_chains =
     map (\<lambda>(rs, ch). (demo_row 0 ''CA'' rs ch)\<lparr>mapped := True, type := 2\<rparr>)
       [(1, 0), (2, 0), (3, 0), (1, 1), (2, 1), (3, 1), (4, 1), (5, 1), (1, 2), (2, 2), (3, 2)]"

text \<open>
  Two chains of five single-bead residues each, every bead named CA, without bonds; and one
  chain of five beads named CB.
\<close>

definition demo_CA_topology :: md_topology where
  "demo_CA_topology =
     \<lparr>chains = [map (\<lambda>i. [Atom i ''CA'']) [0, 1, 2, 3, 4], map (\<lambda>i. [Atom i ''CA'']) [5, 6, 7, 8, 9]],
      bonds = []\<rparr>"

definition demo_CB_topology :: md_topology where
  "demo_CB_topology = \<lparr>chains = [map (\<lambda>i. [Atom i ''CB'']) [0, 1, 2, 3, 4]], bonds = []\<rparr>"

text \<open>
  Modelled from the spec: \<^verbatim>\<open>get_edges_and_orders\<close> of \<^verbatim>\<open>utils\<close>, missing from the sources,
  for one prior, the bonds: every directly connected pair of the bonded graph, the lower
  index first, with the order 2. It is used for concrete runs only.
\<close>

definition get_edges_and_orders_model ::
  "unit list \<Rightarrow> md_topology \<Rightarrow> (string \<times> nat \<times> nat list list) list" where
  "get_edges_and_orders_model prior_builders cg_top =
     [(''bonds'', 2, map (\<lambda>b. [index (fst b), index (snd b)]) (bonds cg_top))]"

text \<open>
  Prior builders without the attribute \<^verbatim>\<open>separate_termini\<close>, so that the helper for the
  terminal atoms is never called, and collections whose structure is all CG already, so
  that the slice keeps the whole topology.
\<close>

definition demo_separate_termini :: "unit \<Rightarrow> bool" where
  "demo_separate_termini pb = False"

definition demo_get_terminal_atoms ::
  "unit \<Rightarrow> atom_row list \<Rightarrow> string option \<Rightarrow> string option \<Rightarrow> unit" where
  "demo_get_terminal_atoms pb df nt ct = pb"

definition demo_topology_subset :: "md_topology \<Rightarrow> nat list \<Rightarrow> md_topology" where
  "demo_topology_subset t idx = t"


definition demo_CA_collection :: SampleCollection where
  "demo_CA_collection =
     (SampleCollection_init ''ca'' ''demo'')
       \<lparr>input_traj := Some \<lparr>n_atoms = 10, xyz = [], topology = demo_CA_topology\<rparr>,
        cg_atom_indices := Some [0, 1, 2, 3, 4, 5, 6, 7, 8, 9]\<rparr>"

definition demo_CB_collection :: SampleCollection where
  "demo_CB_collection =
     (SampleCollection_init ''cb'' ''demo'')
       \<lparr>input_traj := Some \<lparr>n_atoms = 5, xyz = [], topology = demo_CB_topology\<rparr>,
        cg_atom_indices := Some [0, 1, 2, 3, 4]\<rparr>"

section \<open>Terminal particles and terminal codes in the words of the specification\<close>

text \<open>
  A particle is at the minimum (maximum) residue-sequence number of its chain when no
  particle of the same chain has a smaller (larger) \<^verbatim>\<open>resSeq\<close>.
\<close>

definition at_chain_min :: "atom_row list \<Rightarrow> nat \<Rightarrow> bool" where
  "at_chain_min df i = list_all (\<lambda>r. chainID r = chainID (df ! i) \<longrightarrow> resSeq (df ! i) \<le> resSeq r) df"

definition at_chain_max :: "atom_row list \<Rightarrow> nat \<Rightarrow> bool" where
  "at_chain_max df i = list_all (\<lambda>r. chainID r = chainID (df ! i) \<longrightarrow> resSeq r \<le> resSeq (df ! i)) df"

text \<open>
  A terminal code is allocated lazily: the code of the key when the dictionary has it, else
  the maximum of the existing codes plus one, which is then entered under the key.
\<close>

definition lazy_code :: "string \<Rightarrow> embedding \<Rightarrow> int" where
  "lazy_code key d = (case map_of d key of Some c \<Rightarrow> c | None \<Rightarrow> Max (set (map snd d)) + 1)"

definition with_lazy_code :: "string \<Rightarrow> embedding \<Rightarrow> embedding" where
  "with_lazy_code key d = (case map_of d key of Some c \<Rightarrow> d | None \<Rightarrow> d @ [(key, lazy_code key d)])"

text \<open>
  A homodimer as a CG table: two chains of two residues with the atoms N, CA and C, the
  second chain shifted by the six particles of the first, all with the codes of the
  dictionary.
\<close>

definition demo_cg_row :: "string \<Rightarrow> int \<Rightarrow> nat \<Rightarrow> int \<Rightarrow> atom_row" where
  "demo_cg_row nm rs ch code = (demo_row 0 nm rs ch)\<lparr>mapped := True, type := code\<rparr>"

definition demo_cg_dimer :: "atom_row list" where
  "demo_cg_dimer =
     [demo_cg_row ''N'' 1 0 1, demo_cg_row ''CA'' 1 0 2, demo_cg_row ''C'' 1 0 3,
      demo_cg_row ''N'' 2 0 1, demo_cg_row ''CA'' 2 0 2, demo_cg_row ''C'' 2 0 3,
      demo_cg_row ''N'' 7 1 1, demo_cg_row ''CA'' 7 1 2, demo_cg_row ''C'' 7 1 3,
      demo_cg_row ''N'' 8 1 1, demo_cg_row ''CA'' 8 1 2, demo_cg_row ''C'' 8 1 3]"

definition demo_cg_dimer_collection :: SampleCollection where
  "demo_cg_dimer_collection =
     (SampleCollection_init ''dimer'' ''demo'')
       \<lparr>embedding_dict := Some demo_embedding, cg_dataframe := Some demo_cg_dimer,
        N_term := Some None, C_term := Some None\<rparr>"

section \<open>Properties of \<^verbatim>\<open>get_strides\<close>\<close>

lemma cumsum_from_append:
  "cumsum_from a (xs @ ys) = cumsum_from a xs @ cumsum_from (a + sum_list xs) ys"
  by (induction xs arbitrary: a) (simp_all add: add.assoc)

lemma sum_list_replicate_int: "sum_list (replicate m (b::int)) = int m * b"
  by (induction m) (simp_all add: algebra_simps)

lemma cumsum_from_replicate:
  "cumsum_from a (replicate m b) = map (\<lambda>k. a + (int k + 1) * b) [0..<m]"
proof (induction m arbitrary: a)
  case 0
  show ?case by simp
next
  case (Suc m)
  have "cumsum_from a (replicate (Suc m) b) = cumsum_from a (replicate m b @ [b])"
    by (simp add: replicate_append_same)
  also have "\<dots> = map (\<lambda>k. a + (int k + 1) * b) [0..<m] @ [a + int m * b + b]"
    by (simp add: cumsum_from_append Suc.IH sum_list_replicate_int)
  also have "\<dots> = map (\<lambda>k. a + (int k + 1) * b) [0..<Suc m]"
    by (simp add: algebra_simps)
  finally show ?case .
qed

lemma vstack_T_map:
  "vstack_T (map g [0..<Suc m]) = map (\<lambda>k. (g k, g (Suc k))) [0..<m]"
proof -
  have b: "butlast (map g [0..<Suc m]) = map g [0..<m]"
    by (simp add: butlast_append)
  have "tl (map g [0..<Suc m]) = map g [Suc 0..<Suc m]"
    by (simp add: map_tl[symmetric] del: upt_Suc)
  also have "\<dots> = map (\<lambda>k. g (Suc k)) [0..<m]"
    by (simp add: map_Suc_upt[symmetric] del: upt_Suc)
  finally have t: "tl (map g [0..<Suc m]) = map (\<lambda>k. g (Suc k)) [0..<m]" .
  show ?thesis
    unfolding vstack_T_def b t by (simp add: zip_map_map zip_same_conv_map)
qed

lemma get_strides_divides:
  assumes b: "0 < b" and n: "0 \<le> n" and r: "n mod b = 0"
  shows "get_strides n b = Inr (map (\<lambda>k. (int k * b, (int k + 1) * b)) [0..<nat (n div b)])"
proof -
  define q where "q = nat (n div b)"
  have q: "n div b = int q" using b n by (simp add: q_def pos_imp_zdiv_nonneg_iff)
  have bs: "assign_from_1 (replicate (nat (int q + 1)) 0) b = 0 # replicate q b"
    by (simp add: assign_from_1_def nat_add_distrib)
  have cs: "cumsum (0 # replicate q b) = map (\<lambda>k. int k * b) [0..<Suc q]"
  proof -
    have "cumsum (0 # replicate q b) = 0 # map (\<lambda>k. (int k + 1) * b) [0..<q]"
      by (simp add: cumsum_def cumsum_from_replicate)
    also have "\<dots> = map (\<lambda>k. int k * b) (0 # map Suc [0..<q])"
      by (simp add: comp_def)
    also have "0 # map Suc [0..<q] = [0..<Suc q]"
      by (simp add: map_Suc_upt upt_conv_Cons del: upt_Suc)
    finally show ?thesis .
  qed
  have "get_strides n b = Inr (vstack_T (map (\<lambda>k. int k * b) [0..<Suc q]))"
    using b r by (simp add: get_strides_def np_divmod_def np_zeros_def q bs cs)
  also have "\<dots> = Inr (map (\<lambda>k. (int k * b, (int k + 1) * b)) [0..<q])"
    by (simp only: vstack_T_map) (simp add: algebra_simps)
  finally show ?thesis by (simp add: q_def)
qed

lemma get_strides_remainder:
  assumes b: "0 < b" and n: "0 \<le> n" and r: "n mod b \<noteq> 0"
  shows "get_strides n b =
           Inr (map (\<lambda>k. (int k * b, (int k + 1) * b)) [0..<nat (n div b)] @ [(n div b * b, n)])"
proof -
  define q where "q = nat (n div b)"
  have q: "n div b = int q" using b n by (simp add: q_def pos_imp_zdiv_nonneg_iff)
  have rpos: "n mod b > -1" using b by (smt (verit) pos_mod_sign)
  have nq: "n = int q * b + n mod b" using q by (metis div_mult_mod_eq)
  have z: "nat (int q + 2) = Suc (Suc q)" by simp
  have bs: "assign_last (assign_1_to_last (0 # 0 # replicate q 0) b) (n mod b)
              = Inr (0 # replicate q b @ [n mod b])"
    by (simp add: assign_last_def assign_1_to_last_def butlast_append)
  have cs: "cumsum (0 # replicate q b @ [n mod b]) = map (\<lambda>k. int k * b) [0..<Suc q] @ [n]"
  proof -
    have h: "0 # map (\<lambda>k. (int k + 1) * b) [0..<q] = map (\<lambda>k. int k * b) [0..<Suc q]"
    proof -
      have "0 # map (\<lambda>k. (int k + 1) * b) [0..<q] = map (\<lambda>k. int k * b) (0 # map Suc [0..<q])"
        by (simp add: comp_def)
      also have "0 # map Suc [0..<q] = [0..<Suc q]"
        by (simp add: map_Suc_upt upt_conv_Cons del: upt_Suc)
      finally show ?thesis .
    qed
    have "cumsum (0 # replicate q b @ [n mod b])
            = (0 # map (\<lambda>k. (int k + 1) * b) [0..<q]) @ [int q * b + n mod b]"
      by (simp add: cumsum_def cumsum_from_append cumsum_from_replicate sum_list_replicate_int)
    then show ?thesis using nq by (simp only: h)
  qed
  define g where "g = (\<lambda>k. if k \<le> q then int k * b else n)"
  have gm: "map (\<lambda>k. int k * b) [0..<Suc q] @ [n] = map g [0..<Suc (Suc q)]"
    by (simp add: g_def)
  have "get_strides n b = Inr (vstack_T (map g [0..<Suc (Suc q)]))"
    using b r rpos by (simp add: get_strides_def np_divmod_def np_zeros_def q z bs cs gm del: upt_Suc)
  also have "\<dots> = Inr (map (\<lambda>k. (g k, g (Suc k))) [0..<Suc q])"
    by (simp only: vstack_T_map)
  also have "map (\<lambda>k. (g k, g (Suc k))) [0..<Suc q]
               = map (\<lambda>k. (int k * b, (int k + 1) * b)) [0..<q] @ [(int q * b, n)]"
  proof -
    have "map (\<lambda>k. (g k, g (Suc k))) [0..<Suc q]
            = map (\<lambda>k. (g k, g (Suc k))) [0..<q] @ [(g q, g (Suc q))]"
      by simp
    also have "map (\<lambda>k. (g k, g (Suc k))) [0..<q]
                 = map (\<lambda>k. (int k * b, (int k + 1) * b)) [0..<q]"
      by (rule map_cong) (simp_all add: g_def)
    also have "(g q, g (Suc q)) = (int q * b, n)"
      by (simp add: g_def)
    finally show ?thesis .
  qed
  finally show ?thesis by (simp add: q)
qed


lemma ceiling_div_int:
  assumes "0 < (b::int)"
  shows "\<lceil>real_of_int n / real_of_int b\<rceil> = n div b + (if n mod b = 0 then 0 else 1)"
proof -
  have "\<lceil>real_of_int n / real_of_int b\<rceil> = - (- n div b)"
    by (rule ceiling_divide_eq_div)
  also have "\<dots> = n div b + (if n mod b = 0 then 0 else 1)"
    using assms by (simp add: zdiv_zminus1_eq_if)
  finally show ?thesis .
qed

lemma get_strides_cover:
  assumes b: "0 < b" and bn: "b \<le> n"
  shows "\<exists>ps. get_strides n b = Inr ps
           \<and> ps \<noteq> [] \<and> fst (hd ps) = 0 \<and> snd (last ps) = n
           \<and> (\<forall>i. Suc i < length ps \<longrightarrow> snd (ps ! i) = fst (ps ! Suc i))
           \<and> (\<forall>i. Suc i < length ps \<longrightarrow> snd (ps ! i) - fst (ps ! i) = b)
           \<and> snd (last ps) - fst (last ps) = (if n mod b = 0 then b else n mod b)
           \<and> int (length ps) = \<lceil>real_of_int n / real_of_int b\<rceil>"
proof -
  define q where "q = nat (n div b)"
  define F where "F = (\<lambda>k. (int k * b, (int k + 1) * b))"
  have n0: "0 \<le> n" using b bn by simp
  have q: "n div b = int q" using b n0 by (simp add: q_def pos_imp_zdiv_nonneg_iff)
  have q1: "0 < q"
  proof -
    have "0 < n div b" using b bn by (simp add: pos_imp_zdiv_pos_iff)
    then show ?thesis using q by simp
  qed
  have nq: "n = int q * b + n mod b" using q by (metis div_mult_mod_eq)
  have Fnth: "\<And>i. i < q \<Longrightarrow> map F [0..<q] ! i = F i" by simp
  have hdF: "hd (map F [0..<q]) = F 0"
    using q1 by (simp add: hd_map upt_conv_Cons)
  have lastF: "last (map F [0..<q]) = F (q - 1)"
    using q1 by (simp add: last_map)
  show ?thesis
  proof (cases "n mod b = 0")
    case True
    have g: "get_strides n b = Inr (map F [0..<q])"
      unfolding F_def q_def by (rule get_strides_divides[OF b n0 True])
    have nqb: "n = int q * b" using nq True by simp
    have l: "snd (F (q - 1)) = n" and l': "fst (F (q - 1)) = n - b"
      using q1 nqb by (simp_all add: F_def algebra_simps of_nat_diff)
    have c: "int (length (map F [0..<q])) = \<lceil>real_of_int n / real_of_int b\<rceil>"
      using True q by (simp add: ceiling_div_int[OF b])
    have "map F [0..<q] \<noteq> []" using q1 by simp
    moreover have "fst (hd (map F [0..<q])) = 0" by (simp add: hdF) (simp add: F_def)
    moreover have "snd (last (map F [0..<q])) = n" by (simp only: lastF l)
    moreover have "\<forall>i. Suc i < length (map F [0..<q])
                      \<longrightarrow> snd (map F [0..<q] ! i) = fst (map F [0..<q] ! Suc i)"
      by (simp add: F_def)
    moreover have "\<forall>i. Suc i < length (map F [0..<q])
                      \<longrightarrow> snd (map F [0..<q] ! i) - fst (map F [0..<q] ! i) = b"
      by (simp add: F_def algebra_simps)
    moreover have "snd (last (map F [0..<q])) - fst (last (map F [0..<q]))
                     = (if n mod b = 0 then b else n mod b)"
      using True by (simp only: lastF l l') simp
    ultimately show ?thesis using g c by blast
  next
    case False
    define ps where "ps = map F [0..<q] @ [(int q * b, n)]"
    have g: "get_strides n b = Inr ps"
      using get_strides_remainder[OF b n0 False] by (simp add: ps_def F_def q)
    have len: "length ps = Suc q" by (simp add: ps_def)
    have nth_lo: "\<And>i. i < q \<Longrightarrow> ps ! i = F i"
      by (simp add: ps_def nth_append)
    have nth_q: "ps ! q = (int q * b, n)"
      by (simp add: ps_def nth_append)
    have c: "int (length ps) = \<lceil>real_of_int n / real_of_int b\<rceil>"
      using False q by (simp add: ceiling_div_int[OF b] len)
    have "ps \<noteq> []" by (simp add: ps_def)
    moreover have "fst (hd ps) = 0"
      using q1 by (simp add: ps_def hd_append hdF) (simp add: F_def)
    moreover have "snd (last ps) = n" by (simp add: ps_def)
    moreover have "\<forall>i. Suc i < length ps \<longrightarrow> snd (ps ! i) = fst (ps ! Suc i)"
    proof (intro allI impI)
      fix i assume "Suc i < length ps"
      then have i: "i < q" by (simp add: len)
      show "snd (ps ! i) = fst (ps ! Suc i)"
      proof (cases "Suc i < q")
        case True
        then show ?thesis using i by (simp add: nth_lo F_def)
      next
        case False
        then have "Suc i = q" using i by simp
        then show ?thesis using i nth_q by (simp add: nth_lo F_def)
      qed
    qed
    moreover have "\<forall>i. Suc i < length ps \<longrightarrow> snd (ps ! i) - fst (ps ! i) = b"
      by (simp add: len nth_lo F_def algebra_simps)
    moreover have "snd (last ps) - fst (last ps) = (if n mod b = 0 then b else n mod b)"
      using False nq by (simp add: ps_def)
    ultimately show ?thesis using g c by blast
  qed
qed

section \<open>Properties of \<^verbatim>\<open>CGDataBatch\<close>\<close>

lemma get_strides_zero: "get_strides 0 0 = Inr []"
  by (simp add: get_strides_def np_divmod_def np_zeros_def assign_from_1_def cumsum_def vstack_T_def)

lemma get_strides_whole:
  assumes "0 < n"
  shows "get_strides n n = Inr [(0, n)]"
  using get_strides_divides[of n n] assms by simp





text \<open>
  Claim C7. With \<open>n > 0\<close> strided frames and a batch size \<open>b\<close> with \<open>0 < b \<le> n\<close>, the
  constructor returns, the batch size is kept, and the rows \<open>(start, end)\<close> of \<open>strides\<close> are
  contiguous and non-overlapping (each one ends where the next one starts), begin at \<open>0\<close>
  and end at \<open>n\<close>; every row but the last has size \<open>b\<close>, the last one has size \<open>b\<close> when
  \<open>b\<close> divides \<open>n\<close> and \<open>n mod b\<close> otherwise; the length of the batch list is the ceiling of
  \<open>n / b\<close>.
\<close>

theorem CGDataBatch_windows_cover:
  assumes s: "0 < stride_arg"
    and n: "n = int (length (strided coords (nat stride_arg)))"
    and b: "0 < b" and bn: "b \<le> n"
  shows "\<exists>B. CGDataBatch_init torch_sum float_div coords forces embeds prior_nls b stride_arg weights_arg concat_arg = Inr B
           \<and> batch_size B = b \<and> n_structure B = n
           \<and> strides B \<noteq> [] \<and> fst (hd (strides B)) = 0 \<and> snd (last (strides B)) = n
           \<and> (\<forall>i. Suc i < length (strides B)
                  \<longrightarrow> snd (strides B ! i) = fst (strides B ! Suc i))
           \<and> (\<forall>i. Suc i < length (strides B)
                  \<longrightarrow> snd (strides B ! i) - fst (strides B ! i) = b)
           \<and> snd (last (strides B)) - fst (last (strides B)) = (if n mod b = 0 then b else n mod b)
           \<and> CGDataBatch_len B = length (strides B)
           \<and> int (CGDataBatch_len B) = \<lceil>real_of_int n / real_of_int b\<rceil>"
proof -
  obtain ps where g: "get_strides n b = Inr ps"
    and p: "ps \<noteq> []" "fst (hd ps) = 0" "snd (last ps) = n"
      "\<forall>i. Suc i < length ps \<longrightarrow> snd (ps ! i) = fst (ps ! Suc i)"
      "\<forall>i. Suc i < length ps \<longrightarrow> snd (ps ! i) - fst (ps ! i) = b"
      "snd (last ps) - fst (last ps) = (if n mod b = 0 then b else n mod b)"
      "int (length ps) = \<lceil>real_of_int n / real_of_int b\<rceil>"
    using get_strides_cover[OF b bn] by blast
  show ?thesis
    using s bn g p
    by (simp add: CGDataBatch_init_def from_numpy_strided_def n[symmetric] CGDataBatch_len_def
          split: option.split)
qed

theorem CGDataBatch_windows_cover_witness:
  "\<exists>B. CGDataBatch_init exact_sum exact_div [10, 11, 12, 13, 14 :: nat] [20, 21, 22, 23, 24] () () 2 1 None False = Inr B
     \<and> batch_size B = 2 \<and> n_structure B = 5
     \<and> strides B \<noteq> [] \<and> fst (hd (strides B)) = 0 \<and> snd (last (strides B)) = 5
     \<and> (\<forall>i. Suc i < length (strides B)
            \<longrightarrow> snd (strides B ! i) = fst (strides B ! Suc i))
     \<and> (\<forall>i. Suc i < length (strides B)
            \<longrightarrow> snd (strides B ! i) - fst (strides B ! i) = 2)
     \<and> snd (last (strides B)) - fst (last (strides B)) = 1
     \<and> CGDataBatch_len B = length (strides B)
     \<and> int (CGDataBatch_len B) = 3"
proof -
  have n: "(5::int) = int (length (strided [10, 11, 12, 13, 14 :: nat] (nat 1)))"
    by (simp add: strided_def)
  have c: "\<lceil>real_of_int 5 / real_of_int 2\<rceil> = (3::int)"
    by (simp add: ceiling_div_int)
  show ?thesis
    using CGDataBatch_windows_cover[of 1 5 "[10, 11, 12, 13, 14 :: nat]" 2 exact_sum exact_div
        "[20, 21, 22, 23, 24]" "()" "()" None False, OF _ n]
    unfolding c by simp
qed




text \<open>
  Claim C10, as amended. A batch size larger than the number \<open>n\<close> of strided frames is
  replaced by \<open>n\<close>; with at least one frame the batch list is the single batch \<open>[0, n)\<close>,
  with no frame it is empty.
\<close>

theorem CGDataBatch_batch_size_capped:
  assumes s: "0 < stride_arg"
    and n: "n = int (length (strided coords (nat stride_arg)))"
    and b: "n < batch_size_arg"
  shows "\<exists>B. CGDataBatch_init torch_sum float_div coords forces embeds prior_nls batch_size_arg stride_arg weights_arg concat_arg
               = Inr B
           \<and> batch_size B = n
           \<and> strides B = (if 0 < n then [(0, n)] else [])
           \<and> CGDataBatch_len B = (if 0 < n then 1 else 0)"
proof -
  have n0: "0 \<le> n" by (simp add: n)
  have g: "get_strides n n = Inr (if 0 < n then [(0, n)] else [])"
    using n0 get_strides_whole[of n] get_strides_zero by (cases "n = 0") simp_all
  show ?thesis
    using s b g
    by (simp add: CGDataBatch_init_def from_numpy_strided_def n[symmetric] CGDataBatch_len_def
          split: option.split)
qed

theorem CGDataBatch_batch_size_capped_witness:
  "\<exists>B. CGDataBatch_init exact_sum exact_div [10, 11, 12 :: nat] [20, 21, 22] () () 7 1 None False = Inr B
     \<and> batch_size B = 3 \<and> strides B = [(0, 3)] \<and> CGDataBatch_len B = 1"
proof -
  have n: "(3::int) = int (length (strided [10, 11, 12 :: nat] (nat 1)))"
    by (simp add: strided_def)
  show ?thesis
    using CGDataBatch_batch_size_capped[of 1 3 "[10, 11, 12 :: nat]" 7 exact_sum exact_div
        "[20, 21, 22]" "()" "()" None False, OF _ n]
    by simp
qed

text \<open>
  Claim C10 as stated fails for an array without frames: the batch size 1 is larger than
  the frame count 0, and the batch list has no batch.
\<close>

theorem CGDataBatch_no_frames_counterexample:
  "int (length (strided ([] :: nat list) (nat 1))) < 1
   \<and> map_sum id CGDataBatch_len (CGDataBatch_init exact_sum exact_div ([] :: nat list) [] () () 1 1 None False) = Inr 0"
  using get_strides_zero
  by (simp add: CGDataBatch_init_def from_numpy_strided_def strided_def CGDataBatch_len_def)

section \<open>Properties of \<^verbatim>\<open>process_coords_forces\<close> and \<^verbatim>\<open>save_cg_output\<close>\<close>

lemma files_print: "files (print msg w) = files w"
  and stdout_print: "stdout (print msg w) = stdout w @ [msg]"
  and os_error_print: "os_error (print msg w) = os_error w"
  by (simp_all add: print_def)

lemmas world_simps = files_print stdout_print os_error_print

lemma suffix_neq: "a \<noteq> b \<Longrightarrow> t @ a \<noteq> t @ b"
  by simp

lemma save_cg_output_no_arrays:
  assumes idx: "cg_atom_indices s = Some idx" and traj: "input_traj s = Some traj"
    and xyz: "atom_slice_xyz traj idx = Inr cg_xyz" and df: "cg_dataframe s = Some cg_df"
    and templ: "templ = os_path_join save_dir (get_output_tag [tag s, sample_name s] ''before'')"
    and dir: "path_exists w save_dir \<or> (save_dir \<noteq> [] \<and> os_error w save_dir = None)"
    and o1: "os_error w (templ @ ''cg_structure.pdb'') = None"
    and o2: "os_error w (templ @ ''cg_embeds.npy'') = None"
    and o3: "cg_coords s \<noteq> None \<longrightarrow> os_error w (templ @ ''cg_coords.npy'') = None"
    and o4: "cg_forces s \<noteq> None \<longrightarrow> os_error w (templ @ ''cg_forces.npy'') = None"
    and o5: "save_cg_maps \<and> cg_map s \<noteq> None \<longrightarrow> os_error w (templ @ ''cg_coord_map.npy'') = None"
    and o6: "save_cg_maps \<and> force_map s \<noteq> None \<longrightarrow> os_error w (templ @ ''cg_force_map.npy'') = None"
  shows "\<exists>w'. save_cg_output get_output_tag save_dir True save_cg_maps None None (s, w)
                 = (Return (), s, w')
           \<and> files w' (templ @ ''cg_structure.pdb'') = Some (PdbFile cg_xyz cg_df)
           \<and> files w' (templ @ ''cg_embeds.npy'') = Some (NpyInts (map type cg_df))
           \<and> files w' (templ @ ''cg_coords.npy'')
               = (case cg_coords s of
                    None \<Rightarrow> files w (templ @ ''cg_coords.npy'')
                  | Some c \<Rightarrow> Some (NpyArray c))
           \<and> files w' (templ @ ''cg_forces.npy'')
               = (case cg_forces s of
                    None \<Rightarrow> files w (templ @ ''cg_forces.npy'')
                  | Some f \<Rightarrow> Some (NpyArray f))
           \<and> files w' (templ @ ''cg_coord_map.npy'')
               = (case cg_map s of
                    Some m \<Rightarrow> if save_cg_maps then Some (NpyMap m) else files w (templ @ ''cg_coord_map.npy'')
                  | None \<Rightarrow> files w (templ @ ''cg_coord_map.npy''))
           \<and> files w' (templ @ ''cg_force_map.npy'')
               = (case force_map s of
                    Some fm \<Rightarrow> if save_cg_maps then Some (NpyArray fm) else files w (templ @ ''cg_force_map.npy'')
                  | None \<Rightarrow> files w (templ @ ''cg_force_map.npy''))
           \<and> stdout w'
               = stdout w
                 @ (if cg_coords s = None
                    then [''No coordinates found; only CG structure, embeddings and loaded forces will be saved.'']
                    else [])
                 @ (if cg_forces s = None
                    then [''No forces found;  only CG structure, embeddings, and loaded coordinates will be saved.'']
                    else [])
                 @ (if save_cg_maps \<and> cg_map s = None
                    then [''No cg coordinate map found. Skipping save.''] else [])
                 @ (if save_cg_maps \<and> force_map s = None
                    then [''No cg force map found. Skipping save.''] else [])"
proof -
  define p_pdb where "p_pdb = templ @ ''cg_structure.pdb''"
  define p_emb where "p_emb = templ @ ''cg_embeds.npy''"
  define p_crd where "p_crd = templ @ ''cg_coords.npy''"
  define p_frc where "p_frc = templ @ ''cg_forces.npy''"
  define p_cmap where "p_cmap = templ @ ''cg_coord_map.npy''"
  define p_fmap where "p_fmap = templ @ ''cg_force_map.npy''"
  define m_crd where
    "m_crd = ''No coordinates found; only CG structure, embeddings and loaded forces will be saved.''"
  define m_frc where
    "m_frc = ''No forces found;  only CG structure, embeddings, and loaded coordinates will be saved.''"
  define m_cmap where "m_cmap = ''No cg coordinate map found. Skipping save.''"
  define m_fmap where "m_fmap = ''No cg force map found. Skipping save.''"
  note names = p_pdb_def p_emb_def p_crd_def p_frc_def p_cmap_def p_fmap_def
    m_crd_def m_frc_def m_cmap_def m_fmap_def
  have ne: "p_pdb \<noteq> p_emb" "p_pdb \<noteq> p_crd" "p_pdb \<noteq> p_frc" "p_pdb \<noteq> p_cmap" "p_pdb \<noteq> p_fmap"
    "p_emb \<noteq> p_crd" "p_emb \<noteq> p_frc" "p_emb \<noteq> p_cmap" "p_emb \<noteq> p_fmap"
    "p_crd \<noteq> p_frc" "p_crd \<noteq> p_cmap" "p_crd \<noteq> p_fmap"
    "p_frc \<noteq> p_cmap" "p_frc \<noteq> p_fmap" "p_cmap \<noteq> p_fmap"
    unfolding p_pdb_def p_emb_def p_crd_def p_frc_def p_cmap_def p_fmap_def
    by (rule suffix_neq, simp)+
  define w0 where
    "w0 = (if path_exists w save_dir then w
           else w\<lparr>dirs := dirs w @ filter (\<lambda>q. q \<notin> set (dirs w)) (parent_dirs save_dir)
                              @ [save_dir]\<rparr>)"
  define w1 where "w1 = w0\<lparr>files := (files w0)(p_pdb \<mapsto> PdbFile cg_xyz cg_df)\<rparr>"
  define w2 where "w2 = w1\<lparr>files := (files w1)(p_emb \<mapsto> NpyInts (map type cg_df))\<rparr>"
  define w3 where "w3 = (case cg_coords s of None \<Rightarrow> print m_crd w2
                          | Some a \<Rightarrow> w2\<lparr>files := (files w2)(p_crd \<mapsto> NpyArray a)\<rparr>)"
  define w4 where "w4 = (case cg_forces s of None \<Rightarrow> print m_frc w3
                          | Some a \<Rightarrow> w3\<lparr>files := (files w3)(p_frc \<mapsto> NpyArray a)\<rparr>)"
  define w5 where "w5 = (case cg_map s of None \<Rightarrow> print m_cmap w4
                          | Some m \<Rightarrow> w4\<lparr>files := (files w4)(p_cmap \<mapsto> NpyMap m)\<rparr>)"
  define w6 where "w6 = (case force_map s of None \<Rightarrow> print m_fmap w5
                          | Some fm \<Rightarrow> w5\<lparr>files := (files w5)(p_fmap \<mapsto> NpyArray fm)\<rparr>)"
  define wf where "wf = (if save_cg_maps then w6 else w4)"
  have e0: "os_error w0 = os_error w" by (simp add: w0_def)
  have e1: "os_error w1 = os_error w" by (simp add: w1_def e0)
  have e2: "os_error w2 = os_error w" by (simp add: w2_def e1)
  have e3: "os_error w3 = os_error w" by (simp add: w3_def e2 world_simps split: option.split)
  have e4: "os_error w4 = os_error w" by (simp add: w4_def e3 world_simps split: option.split)
  have e5: "os_error w5 = os_error w" by (simp add: w5_def e4 world_simps split: option.split)
  have r0: "(if \<not> path_exists w save_dir then makedirs save_dir w else Inr w) = Inr w0"
    using dir by (auto simp: w0_def makedirs_def)
  have r1: "write_file p_pdb (PdbFile cg_xyz cg_df) w0 = Inr w1"
    using o1 by (simp add: write_file_def w1_def e0 p_pdb_def)
  have r2: "write_file p_emb (NpyInts (map type cg_df)) w1 = Inr w2"
    using o2 by (simp add: write_file_def w2_def e1 p_emb_def)
  have r3: "save_array None (cg_coords s) p_crd m_crd w2 = Inr w3"
    using o3 by (auto simp: save_array_def eq_None_def write_file_def w3_def e2 p_crd_def
        split: option.split)
  have r4: "save_array None (cg_forces s) p_frc m_frc w3 = Inr w4"
    using o4 by (auto simp: save_array_def eq_None_def write_file_def w4_def e3 p_frc_def
        split: option.split)
  have r5: "(case cg_map s of None \<Rightarrow> Inr (print m_cmap w4)
             | Some m \<Rightarrow> write_file p_cmap (NpyMap m) w4) = Inr w5" if "save_cg_maps"
    using o5 that by (auto simp: write_file_def w5_def e4 p_cmap_def split: option.split)
  have r6: "(case force_map s of None \<Rightarrow> Inr (print m_fmap w5)
             | Some fm \<Rightarrow> write_file p_fmap (NpyArray fm) w5) = Inr w6" if "save_cg_maps"
    using o6 that by (auto simp: write_file_def w6_def e5 p_fmap_def split: option.split)
  have run: "save_cg_output get_output_tag save_dir True save_cg_maps None None (s, w) = (Return (), s, wf)"
  proof (cases save_cg_maps)
    case True
    show ?thesis
      unfolding save_cg_output_def
      using r0 r1 r2 r3 r4 r5[OF True] r6[OF True] True
      unfolding names templ
      by (simp add: idx traj xyz df Let_def wf_def)
  next
    case False
    show ?thesis
      unfolding save_cg_output_def
      using r0 r1 r2 r3 r4 False
      unfolding names templ
      by (simp add: idx traj xyz df Let_def wf_def)
  qed
  have f0: "files w0 = files w" and s0: "stdout w0 = stdout w"
    by (simp_all add: w0_def)
  have f2: "files w2 = (files w)(p_pdb \<mapsto> PdbFile cg_xyz cg_df, p_emb \<mapsto> NpyInts (map type cg_df))"
    and s2: "stdout w2 = stdout w"
    by (simp_all add: w2_def w1_def f0 s0)
  have f3: "files w3 = (case cg_coords s of None \<Rightarrow> files w2 | Some a \<Rightarrow> (files w2)(p_crd \<mapsto> NpyArray a))"
    and s3: "stdout w3 = stdout w2 @ (if cg_coords s = None then [m_crd] else [])"
    by (simp_all add: w3_def world_simps split: option.split)
  have f4: "files w4 = (case cg_forces s of None \<Rightarrow> files w3 | Some a \<Rightarrow> (files w3)(p_frc \<mapsto> NpyArray a))"
    and s4: "stdout w4 = stdout w3 @ (if cg_forces s = None then [m_frc] else [])"
    by (simp_all add: w4_def world_simps split: option.split)
  have f5: "files w5 = (case cg_map s of None \<Rightarrow> files w4 | Some m \<Rightarrow> (files w4)(p_cmap \<mapsto> NpyMap m))"
    and s5: "stdout w5 = stdout w4 @ (if cg_map s = None then [m_cmap] else [])"
    by (simp_all add: w5_def world_simps split: option.split)
  have f6: "files w6 = (case force_map s of None \<Rightarrow> files w5 | Some fm \<Rightarrow> (files w5)(p_fmap \<mapsto> NpyArray fm))"
    and s6: "stdout w6 = stdout w5 @ (if force_map s = None then [m_fmap] else [])"
    by (simp_all add: w6_def world_simps split: option.split)
  have g2: "files w2 p_pdb = Some (PdbFile cg_xyz cg_df)" "files w2 p_emb = Some (NpyInts (map type cg_df))"
    "files w2 p_crd = files w p_crd" "files w2 p_frc = files w p_frc"
    "files w2 p_cmap = files w p_cmap" "files w2 p_fmap = files w p_fmap"
    using ne by (simp_all add: f2)
  have g3: "files w3 p_pdb = files w2 p_pdb" "files w3 p_emb = files w2 p_emb"
    "files w3 p_crd = (case cg_coords s of None \<Rightarrow> files w2 p_crd | Some a \<Rightarrow> Some (NpyArray a))"
    "files w3 p_frc = files w2 p_frc" "files w3 p_cmap = files w2 p_cmap" "files w3 p_fmap = files w2 p_fmap"
    using ne by (simp_all add: f3 split: option.split)
  have g4: "files w4 p_pdb = files w3 p_pdb" "files w4 p_emb = files w3 p_emb"
    "files w4 p_crd = files w3 p_crd"
    "files w4 p_frc = (case cg_forces s of None \<Rightarrow> files w3 p_frc | Some a \<Rightarrow> Some (NpyArray a))"
    "files w4 p_cmap = files w3 p_cmap" "files w4 p_fmap = files w3 p_fmap"
    using ne by (simp_all add: f4 split: option.split)
  have g5: "files w5 p_pdb = files w4 p_pdb" "files w5 p_emb = files w4 p_emb"
    "files w5 p_crd = files w4 p_crd" "files w5 p_frc = files w4 p_frc"
    "files w5 p_cmap = (case cg_map s of None \<Rightarrow> files w4 p_cmap | Some m \<Rightarrow> Some (NpyMap m))"
    "files w5 p_fmap = files w4 p_fmap"
    using ne by (simp_all add: f5 split: option.split)
  have g6: "files w6 p_pdb = files w5 p_pdb" "files w6 p_emb = files w5 p_emb"
    "files w6 p_crd = files w5 p_crd" "files w6 p_frc = files w5 p_frc"
    "files w6 p_cmap = files w5 p_cmap"
    "files w6 p_fmap = (case force_map s of None \<Rightarrow> files w5 p_fmap | Some fm \<Rightarrow> Some (NpyArray fm))"
    using ne by (simp_all add: f6 split: option.split)
  have c1: "files wf p_pdb = Some (PdbFile cg_xyz cg_df)"
    by (simp add: wf_def g6 g5 g4 g3 g2)
  have c2: "files wf p_emb = Some (NpyInts (map type cg_df))"
    by (simp add: wf_def g6 g5 g4 g3 g2)
  have c3: "files wf p_crd = (case cg_coords s of None \<Rightarrow> files w p_crd | Some c \<Rightarrow> Some (NpyArray c))"
    by (simp add: wf_def g6 g5 g4 g3 g2 split: option.split)
  have c4: "files wf p_frc = (case cg_forces s of None \<Rightarrow> files w p_frc | Some f \<Rightarrow> Some (NpyArray f))"
    by (simp add: wf_def g6 g5 g4 g3 g2 split: option.split)
  have c5: "files wf p_cmap
              = (case cg_map s of
                   Some m \<Rightarrow> if save_cg_maps then Some (NpyMap m) else files w p_cmap
                 | None \<Rightarrow> files w p_cmap)"
    by (simp add: wf_def g6 g5 g4 g3 g2 split: option.split)
  have c6: "files wf p_fmap
              = (case force_map s of
                   Some fm \<Rightarrow> if save_cg_maps then Some (NpyArray fm) else files w p_fmap
                 | None \<Rightarrow> files w p_fmap)"
    by (simp add: wf_def g6 g5 g4 g3 g2 split: option.split)
  have c7: "stdout wf = stdout w @ (if cg_coords s = None then [m_crd] else [])
                @ (if cg_forces s = None then [m_frc] else [])
                @ (if save_cg_maps \<and> cg_map s = None then [m_cmap] else [])
                @ (if save_cg_maps \<and> force_map s = None then [m_fmap] else [])"
    by (simp add: wf_def s6 s5 s4 s3 s2)
  show ?thesis
    using run c1 c2 c3 c4 c5 c6 c7
    unfolding p_pdb_def p_emb_def p_crd_def p_frc_def p_cmap_def p_fmap_def
      m_crd_def m_frc_def m_cmap_def m_fmap_def
    by blast
qed


lemma demo_mapped_state:
  "cg_atom_indices (fst demo_mapped) = Some [1]"
  "input_traj (fst demo_mapped)
     = Some \<lparr>n_atoms = 2, xyz = [[(0, 0, 0), (1, 1, 1)]], topology = \<lparr>chains = [], bonds = []\<rparr>\<rparr>"
  "cg_dataframe (fst demo_mapped) = Some [(demo_row 1 ''CA'' 1 0)\<lparr>mapped := True, type := 2\<rparr>]"
  "cg_map (fst demo_mapped) = Some [[0, 1]]"
  "force_map (fst demo_mapped) = None"
  "cg_coords (fst demo_mapped) = None"
  "cg_forces (fst demo_mapped) = None"
  "tag (fst demo_mapped) = ''demo''"
  "sample_name (fst demo_mapped) = ''mono''"
  by code_simp+

text \<open>
  Claim C5. When the shapes of the two arrays differ, the method issues a warning, returns
  \<^verbatim>\<open>None\<close> without raising and leaves every attribute of the collection as it was. When
  they agree (and the selection matrix exists and the projection returns), the force map and
  the projected coordinates and forces are stored and the latter two are returned.
\<close>

theorem process_coords_forces_shapes:
  "(shape coords \<noteq> shape forces \<longrightarrow>
      process_coords_forces slice_coord_forces coords forces mapping force_stride bs (s, w)
        = (Return None, s,
           w\<lparr>warned := warned w @ [''Cannot process coordinates and forces: mismatch between array shapes.'']\<rparr>))
   \<and> (shape coords = shape forces \<and> cg_map s = Some m
        \<and> slice_coord_forces coords forces m mapping force_stride bs = Inr (c, f, fm) \<longrightarrow>
      process_coords_forces slice_coord_forces coords forces mapping force_stride bs (s, w)
        = (Return (Some (c, f)),
           s\<lparr>force_map := Some fm, cg_coords := Some c, cg_forces := Some f\<rparr>, w))"
  by (simp add: process_coords_forces_def warn_def)

theorem process_coords_forces_shapes_witness:
  "process_coords_forces slice_coord_forces_model demo_coords \<lparr>shape = [1, 1, 3], data = [5, 5, 5]\<rparr>
       ''slice_aggregate'' 100 None (fst demo_mapped, demo_world)
     = (Return None, fst demo_mapped,
        demo_world\<lparr>warned := warned demo_world
           @ [''Cannot process coordinates and forces: mismatch between array shapes.'']\<rparr>)
   \<and> process_coords_forces slice_coord_forces_model demo_coords demo_forces
       ''slice_aggregate'' 100 None (fst demo_mapped, demo_world)
     = (Return (Some (\<lparr>shape = [1, 1, 3], data = [1, 1, 1]\<rparr>, \<lparr>shape = [1, 1, 3], data = [7, 7, 7]\<rparr>)),
        (fst demo_mapped)\<lparr>force_map := Some \<lparr>shape = [1, 2], data = [0, 1]\<rparr>,
           cg_coords := Some \<lparr>shape = [1, 1, 3], data = [1, 1, 1]\<rparr>,
           cg_forces := Some \<lparr>shape = [1, 1, 3], data = [7, 7, 7]\<rparr>\<rparr>,
        demo_world)"
proof -
  have h1: "shape demo_coords \<noteq> shape \<lparr>shape = [1, 1, 3], data = [5, 5, 5]\<rparr>"
    by (simp add: demo_coords_def)
  have h2: "shape demo_coords = shape demo_forces"
    by (simp add: demo_coords_def demo_forces_def)
  have h3: "cg_map (fst demo_mapped) = Some [[0, 1]]"
    by code_simp
  have h4: "slice_coord_forces_model demo_coords demo_forces [[0, 1]] ''slice_aggregate'' 100 None
              = Inr (\<lparr>shape = [1, 1, 3], data = [1, 1, 1]\<rparr>, \<lparr>shape = [1, 1, 3], data = [7, 7, 7]\<rparr>,
                     \<lparr>shape = [1, 2], data = [0, 1]\<rparr>)"
    by code_simp
  show ?thesis
    using process_coords_forces_shapes[of demo_coords "\<lparr>shape = [1, 1, 3], data = [5, 5, 5]\<rparr>"
        slice_coord_forces_model "''slice_aggregate''" 100 None "fst demo_mapped" demo_world]
      process_coords_forces_shapes[of demo_coords demo_forces
        slice_coord_forces_model "''slice_aggregate''" 100 None "fst demo_mapped" demo_world "[[0, 1]]"]
      h1 h2 h3 h4
    by simp
qed




lemma add_terminal_embeddings_keeps_cg_atom_indices:
  assumes "add_terminal_embeddings N_term_arg C_term_arg (s, w) = (r, s', w')"
  shows "cg_atom_indices s' = cg_atom_indices s"
  using assms
  by (auto simp: add_terminal_embeddings_def assign_N_term_def assign_C_term_def Let_def
      split: option.splits sum.splits prod.splits outcome.splits)

lemma process_coords_forces_keeps_cg_atom_indices:
  assumes "process_coords_forces scf coords forces mapping force_stride bs (s, w) = (r, s', w')"
  shows "cg_atom_indices s' = cg_atom_indices s"
  using assms
  by (auto simp: process_coords_forces_def split: option.splits sum.splits prod.splits if_splits)



text \<open>
  Claim C9, as amended. After the mapping, with \<^verbatim>\<open>save_coord_force\<close> true and no array passed,
  when the output directory exists or can be created and the operating system lets the files
  that are to be written be created, the method returns, writes the CG structure and the
  embeddings, writes each of coordinates, forces, coordinate map and force map (the maps
  when \<^verbatim>\<open>save_cg_maps\<close> is true) that the collection has, leaves the file of a missing one as
  it was, and prints one message for each missing one.
  When the output directory does not exist and creating it raises, that exception leaves
  the method and nothing is written or printed.
\<close>

theorem save_cg_output_skips_missing:
  assumes idx: "cg_atom_indices s = Some idx" and traj: "input_traj s = Some traj"
    and xyz: "atom_slice_xyz traj idx = Inr cg_xyz" and df: "cg_dataframe s = Some cg_df"
    and templ: "templ = os_path_join save_dir (get_output_tag [tag s, sample_name s] ''before'')"
  shows "((path_exists w save_dir \<or> (save_dir \<noteq> [] \<and> os_error w save_dir = None))
          \<and> os_error w (templ @ ''cg_structure.pdb'') = None
          \<and> os_error w (templ @ ''cg_embeds.npy'') = None
          \<and> (cg_coords s \<noteq> None \<longrightarrow> os_error w (templ @ ''cg_coords.npy'') = None)
          \<and> (cg_forces s \<noteq> None \<longrightarrow> os_error w (templ @ ''cg_forces.npy'') = None)
          \<and> (save_cg_maps \<and> cg_map s \<noteq> None \<longrightarrow> os_error w (templ @ ''cg_coord_map.npy'') = None)
          \<and> (save_cg_maps \<and> force_map s \<noteq> None \<longrightarrow> os_error w (templ @ ''cg_force_map.npy'') = None)
          \<longrightarrow> (\<exists>w'. save_cg_output get_output_tag save_dir True save_cg_maps None None (s, w)
                     = (Return (), s, w')
               \<and> files w' (templ @ ''cg_structure.pdb'') = Some (PdbFile cg_xyz cg_df)
               \<and> files w' (templ @ ''cg_embeds.npy'') = Some (NpyInts (map type cg_df))
               \<and> files w' (templ @ ''cg_coords.npy'')
                   = (case cg_coords s of
                        None \<Rightarrow> files w (templ @ ''cg_coords.npy'')
                      | Some c \<Rightarrow> Some (NpyArray c))
               \<and> files w' (templ @ ''cg_forces.npy'')
                   = (case cg_forces s of
                        None \<Rightarrow> files w (templ @ ''cg_forces.npy'')
                      | Some f \<Rightarrow> Some (NpyArray f))
               \<and> files w' (templ @ ''cg_coord_map.npy'')
                   = (case cg_map s of
                        Some m \<Rightarrow> if save_cg_maps then Some (NpyMap m) else files w (templ @ ''cg_coord_map.npy'')
                      | None \<Rightarrow> files w (templ @ ''cg_coord_map.npy''))
               \<and> files w' (templ @ ''cg_force_map.npy'')
                   = (case force_map s of
                        Some fm \<Rightarrow> if save_cg_maps then Some (NpyArray fm) else files w (templ @ ''cg_force_map.npy'')
                      | None \<Rightarrow> files w (templ @ ''cg_force_map.npy''))
               \<and> stdout w'
                   = stdout w
                     @ (if cg_coords s = None
                        then [''No coordinates found; only CG structure, embeddings and loaded forces will be saved.'']
                        else [])
                     @ (if cg_forces s = None
                        then [''No forces found;  only CG structure, embeddings, and loaded coordinates will be saved.'']
                        else [])
                     @ (if save_cg_maps \<and> cg_map s = None
                        then [''No cg coordinate map found. Skipping save.''] else [])
                     @ (if save_cg_maps \<and> force_map s = None
                        then [''No cg force map found. Skipping save.''] else [])))
         \<and> (\<not> path_exists w save_dir \<and> makedirs save_dir w = Inl e
            \<longrightarrow> save_cg_output get_output_tag save_dir True save_cg_maps None None (s, w)
                  = (Raise e, s, w))"
proof (intro conjI impI)
  assume a: "(path_exists w save_dir \<or> (save_dir \<noteq> [] \<and> os_error w save_dir = None))
          \<and> os_error w (templ @ ''cg_structure.pdb'') = None
          \<and> os_error w (templ @ ''cg_embeds.npy'') = None
          \<and> (cg_coords s \<noteq> None \<longrightarrow> os_error w (templ @ ''cg_coords.npy'') = None)
          \<and> (cg_forces s \<noteq> None \<longrightarrow> os_error w (templ @ ''cg_forces.npy'') = None)
          \<and> (save_cg_maps \<and> cg_map s \<noteq> None \<longrightarrow> os_error w (templ @ ''cg_coord_map.npy'') = None)
          \<and> (save_cg_maps \<and> force_map s \<noteq> None \<longrightarrow> os_error w (templ @ ''cg_force_map.npy'') = None)"
  then have dir: "path_exists w save_dir \<or> (save_dir \<noteq> [] \<and> os_error w save_dir = None)"
    and o1: "os_error w (templ @ ''cg_structure.pdb'') = None"
    and o2: "os_error w (templ @ ''cg_embeds.npy'') = None"
    and o3: "cg_coords s \<noteq> None \<longrightarrow> os_error w (templ @ ''cg_coords.npy'') = None"
    and o4: "cg_forces s \<noteq> None \<longrightarrow> os_error w (templ @ ''cg_forces.npy'') = None"
    and o5: "save_cg_maps \<and> cg_map s \<noteq> None \<longrightarrow> os_error w (templ @ ''cg_coord_map.npy'') = None"
    and o6: "save_cg_maps \<and> force_map s \<noteq> None \<longrightarrow> os_error w (templ @ ''cg_force_map.npy'') = None"
    by blast+
  show "\<exists>w'. save_cg_output get_output_tag save_dir True save_cg_maps None None (s, w)
                     = (Return (), s, w')
               \<and> files w' (templ @ ''cg_structure.pdb'') = Some (PdbFile cg_xyz cg_df)
               \<and> files w' (templ @ ''cg_embeds.npy'') = Some (NpyInts (map type cg_df))
               \<and> files w' (templ @ ''cg_coords.npy'')
                   = (case cg_coords s of
                        None \<Rightarrow> files w (templ @ ''cg_coords.npy'')
                      | Some c \<Rightarrow> Some (NpyArray c))
               \<and> files w' (templ @ ''cg_forces.npy'')
                   = (case cg_forces s of
                        None \<Rightarrow> files w (templ @ ''cg_forces.npy'')
                      | Some f \<Rightarrow> Some (NpyArray f))
               \<and> files w' (templ @ ''cg_coord_map.npy'')
                   = (case cg_map s of
                        Some m \<Rightarrow> if save_cg_maps then Some (NpyMap m) else files w (templ @ ''cg_coord_map.npy'')
                      | None \<Rightarrow> files w (templ @ ''cg_coord_map.npy''))
               \<and> files w' (templ @ ''cg_force_map.npy'')
                   = (case force_map s of
                        Some fm \<Rightarrow> if save_cg_maps then Some (NpyArray fm) else files w (templ @ ''cg_force_map.npy'')
                      | None \<Rightarrow> files w (templ @ ''cg_force_map.npy''))
               \<and> stdout w'
                   = stdout w
                     @ (if cg_coords s = None
                        then [''No coordinates found; only CG structure, embeddings and loaded forces will be saved.'']
                        else [])
                     @ (if cg_forces s = None
                        then [''No forces found;  only CG structure, embeddings, and loaded coordinates will be saved.'']
                        else [])
                     @ (if save_cg_maps \<and> cg_map s = None
                        then [''No cg coordinate map found. Skipping save.''] else [])
                     @ (if save_cg_maps \<and> force_map s = None
                        then [''No cg force map found. Skipping save.''] else [])"
    using idx traj xyz df templ dir o1 o2 o3 o4 o5 o6 by (rule save_cg_output_no_arrays)
next
  assume "\<not> path_exists w save_dir \<and> makedirs save_dir w = Inl e"
  then show "save_cg_output get_output_tag save_dir True save_cg_maps None None (s, w) = (Raise e, s, w)"
    by (simp add: save_cg_output_def)
qed

theorem save_cg_output_skips_missing_witness:
  "\<exists>w'. save_cg_output get_output_tag_model ''out'' True True None None (fst demo_mapped, demo_world)
           = (Return (), fst demo_mapped, w')
     \<and> files w' ''out/demo_mono_cg_structure.pdb''
         = Some (PdbFile [[(1, 1, 1)]] [(demo_row 1 ''CA'' 1 0)\<lparr>mapped := True, type := 2\<rparr>])
     \<and> files w' ''out/demo_mono_cg_embeds.npy'' = Some (NpyInts [2])
     \<and> files w' ''out/demo_mono_cg_coords.npy'' = None
     \<and> files w' ''out/demo_mono_cg_forces.npy'' = None
     \<and> files w' ''out/demo_mono_cg_coord_map.npy'' = Some (NpyMap [[0, 1]])
     \<and> files w' ''out/demo_mono_cg_force_map.npy'' = None
     \<and> stdout w'
         = [''No coordinates found; only CG structure, embeddings and loaded forces will be saved.'',
            ''No forces found;  only CG structure, embeddings, and loaded coordinates will be saved.'',
            ''No cg force map found. Skipping save.'']"
proof -
  have xyz: "atom_slice_xyz \<lparr>n_atoms = 2, xyz = [[(0, 0, 0), (1, 1, 1)]],
                 topology = \<lparr>chains = [], bonds = []\<rparr>\<rparr> [1] = Inr [[(1, 1, 1)]]"
    by (simp add: atom_slice_xyz_def)
  have templ: "''out/demo_mono_''
                 = os_path_join ''out'' (get_output_tag_model [tag (fst demo_mapped), sample_name (fst demo_mapped)] ''before'')"
    by (simp add: demo_mapped_state os_path_join_def get_output_tag_model_def)
  show ?thesis
    using save_cg_output_skips_missing[where get_output_tag = get_output_tag_model
        and save_dir = "''out''" and save_cg_maps = True and w = demo_world,
        OF demo_mapped_state(1) demo_mapped_state(2) xyz demo_mapped_state(3) templ]
    by (simp add: demo_mapped_state demo_world_def demo_row_def path_exists_def)
qed

text \<open>
  Claim C9 as stated fails for the empty path as output directory: on the mapped collection
  without projected coordinates and forces \<^verbatim>\<open>os.makedirs\<close> raises \<^verbatim>\<open>FileNotFoundError\<close>, and
  neither the structure nor the embeddings are written and no message is printed.
\<close>

theorem save_cg_output_skips_missing_counterexample:
  "cg_atom_indices (fst demo_mapped) = Some [1]
   \<and> cg_coords (fst demo_mapped) = None
   \<and> cg_forces (fst demo_mapped) = None
   \<and> save_cg_output get_output_tag_model [] True True None None (fst demo_mapped, demo_world)
       = (Raise FileNotFoundError, fst demo_mapped, demo_world)"
  by (simp add: demo_mapped_state save_cg_output_def demo_world_def path_exists_def makedirs_def)
section \<open>Properties of \<^verbatim>\<open>apply_cg_mapping\<close>\<close>

lemma apply_cg_mapping_keeps:
  assumes "apply_cg_mapping em mct cg_atoms ef ed sk (s, w) = (r, s', w')"
  shows "cg_coords s' = cg_coords s \<and> cg_forces s' = cg_forces s \<and> force_map s' = force_map s
         \<and> tag s' = tag s \<and> sample_name s' = sample_name s"
  using assms
  by (auto simp: apply_cg_mapping_def Let_def split: option.splits sum.splits if_splits)

lemma apply_cg_mapping_Return:
  assumes "apply_cg_mapping em mct cg_atoms ef ed sk (s, w) = (Return u, s', w')"
  shows "\<exists>top_df traj. top_dataframe s = Some top_df \<and> input_traj s = Some traj
           \<and> top_dataframe s' = Some (map (mct cg_atoms ef sk) top_df)
           \<and> cg_atom_indices s'
               = Some (filter (\<lambda>i. mapped (map (mct cg_atoms ef sk) top_df ! i)) [0..<length top_df])
           \<and> cg_dataframe s'
               = Some (shift_resSeq (renumber_serial (filter mapped (map (mct cg_atoms ef sk) top_df))))
           \<and> cg_map s'
               = Some (make_cg_map
                         (filter (\<lambda>i. mapped (map (mct cg_atoms ef sk) top_df ! i)) [0..<length top_df])
                         (n_atoms traj))
           \<and> N_term s' = Some None \<and> C_term s' = Some None \<and> input_traj s' = Some traj
           \<and> (\<forall>i \<in> set (filter (\<lambda>i. mapped (map (mct cg_atoms ef sk) top_df ! i)) [0..<length top_df]).
                 i < n_atoms traj)
           \<and> os_error w' = os_error w"
  using assms
  by (auto simp: apply_cg_mapping_def Let_def warn_def split: option.splits sum.splits if_splits)

text \<open>
  The shift of \<^verbatim>\<open>resSeq\<close> changes no other column and adds to every row the offset of its
  chain.
\<close>

lemma shift_resSeq_row:
  assumes "i < length cg_df"
  shows "shift_resSeq cg_df ! i
           = (cg_df ! i)\<lparr>resSeq := resSeq (cg_df ! i) + resSeq_offset cg_df (chainID (cg_df ! i))\<rparr>"
  using assms by (simp add: shift_resSeq_def)

text \<open>
  Claim C1 fails on the code. The offset of a chain is a number of CG particles, not a
  range of residue numbers: in the homodimer with the residues 1, 2 and 4 in both chains,
  mapped onto its CA atoms, the second chain is shifted by 3, so that the last particle of
  the first chain and the first particle of the second chain both get \<^verbatim>\<open>resSeq\<close> 4.
\<close>

theorem apply_cg_mapping_gap_dimer_collision:
  "fst demo_gap_dimer_run = Return ()
   \<and> map_option (map chainID) (cg_dataframe (fst (snd demo_gap_dimer_run))) = Some [0, 0, 0, 1, 1, 1]
   \<and> map_option (map resSeq) (cg_dataframe (fst (snd demo_gap_dimer_run))) = Some [1, 2, 4, 4, 5, 7]"
  by code_simp

text \<open>
  The counts are moreover listed largest first, not by chain: with chains of 3, 5 and 3
  residues numbered from 1 without gaps, the second chain is shifted by its own 5 particles
  and the third one by 8, so that the residue numbers 9 and 10 occur in both.
\<close>

lemma shift_resSeq_three_chains_collision:
  "map chainID (shift_resSeq demo_three_chains) = [0, 0, 0, 1, 1, 1, 1, 1, 2, 2, 2]
   \<and> map resSeq (shift_resSeq demo_three_chains) = [1, 2, 3, 6, 7, 8, 9, 10, 9, 10, 11]"
  by code_simp

text \<open>
  Claim C4, as amended. A call of \<^verbatim>\<open>apply_cg_mapping\<close> that returns replaces the artifacts of
  the mapping: the table with the columns \<^verbatim>\<open>mapped\<close> and \<^verbatim>\<open>type\<close>, the indices of the
  retained atoms, the CG table, the selection matrix; \<^verbatim>\<open>N_term\<close> and \<^verbatim>\<open>C_term\<close> are set to
  \<^verbatim>\<open>None\<close>. It does not touch the projected coordinates and forces nor the force map: the
  collection still holds the arrays it held before. A following \<^verbatim>\<open>save_cg_output\<close> (with
  \<^verbatim>\<open>save_coord_force\<close> true and no array passed, into a directory that exists or can be
  created, the operating system letting the files be written) returns and writes those
  arrays next to the structure and the embeddings of the new CG table.
\<close>

theorem apply_cg_mapping_keeps_projection:
  assumes c: "cg_coords s = Some c" and f: "cg_forces s = Some f"
    and run: "apply_cg_mapping embedding_maps map_cg_topology cg_atoms embedding_function
                embedding_dict_arg skip_residues (s, w) = (Return (), s', w')"
    and templ: "templ = os_path_join save_dir (get_output_tag [tag s', sample_name s'] ''before'')"
    and dir: "path_exists w' save_dir \<or> (save_dir \<noteq> [] \<and> os_error w' save_dir = None)"
    and o1: "os_error w' (templ @ ''cg_structure.pdb'') = None"
    and o2: "os_error w' (templ @ ''cg_embeds.npy'') = None"
    and o3: "os_error w' (templ @ ''cg_coords.npy'') = None"
    and o4: "os_error w' (templ @ ''cg_forces.npy'') = None"
    and o5: "save_cg_maps \<longrightarrow> os_error w' (templ @ ''cg_coord_map.npy'') = None"
    and o6: "save_cg_maps \<and> force_map s \<noteq> None
               \<longrightarrow> os_error w' (templ @ ''cg_force_map.npy'') = None"
  shows "\<exists>top_df traj.
           top_dataframe s = Some top_df \<and> input_traj s = Some traj
           \<and> (let top_df' = map (map_cg_topology cg_atoms embedding_function skip_residues) top_df;
                   idx = filter (\<lambda>i. mapped (top_df' ! i)) [0..<length top_df'];
                   cg_df = shift_resSeq (renumber_serial (filter mapped top_df'))
               in top_dataframe s' = Some top_df'
                  \<and> cg_atom_indices s' = Some idx
                  \<and> cg_dataframe s' = Some cg_df
                  \<and> cg_map s' = Some (make_cg_map idx (n_atoms traj))
                  \<and> N_term s' = Some None \<and> C_term s' = Some None
                  \<and> cg_coords s' = Some c \<and> cg_forces s' = Some f \<and> force_map s' = force_map s
                  \<and> (\<exists>w''. save_cg_output get_output_tag save_dir True save_cg_maps None None (s', w')
                              = (Return (), s', w'')
                        \<and> files w'' (templ @ ''cg_structure.pdb'')
                            = Some (PdbFile (map (\<lambda>frame. map (\<lambda>i. frame ! i) idx) (xyz traj)) cg_df)
                        \<and> files w'' (templ @ ''cg_embeds.npy'') = Some (NpyInts (map type cg_df))
                        \<and> files w'' (templ @ ''cg_coords.npy'') = Some (NpyArray c)
                        \<and> files w'' (templ @ ''cg_forces.npy'') = Some (NpyArray f)))"
proof -
  have keep: "cg_coords s' = Some c" "cg_forces s' = Some f" "force_map s' = force_map s"
    using apply_cg_mapping_keeps[OF run] c f by simp_all
  obtain top_df traj where src: "top_dataframe s = Some top_df" "input_traj s = Some traj"
    and st: "top_dataframe s' = Some (map (map_cg_topology cg_atoms embedding_function skip_residues) top_df)"
      "cg_atom_indices s'
         = Some (filter (\<lambda>i. mapped (map (map_cg_topology cg_atoms embedding_function skip_residues) top_df ! i))
                   [0..<length top_df])"
      "cg_dataframe s'
         = Some (shift_resSeq (renumber_serial
                   (filter mapped (map (map_cg_topology cg_atoms embedding_function skip_residues) top_df))))"
      "cg_map s'
         = Some (make_cg_map
                   (filter (\<lambda>i. mapped (map (map_cg_topology cg_atoms embedding_function skip_residues) top_df ! i))
                      [0..<length top_df])
                   (n_atoms traj))"
      "N_term s' = Some None" "C_term s' = Some None" "input_traj s' = Some traj"
    and rng: "\<forall>i \<in> set (filter (\<lambda>i. mapped (map (map_cg_topology cg_atoms embedding_function skip_residues) top_df ! i))
                            [0..<length top_df]). i < n_atoms traj"
    using apply_cg_mapping_Return[OF run] by (elim exE conjE) (rule that, assumption+)
  define top_df' where "top_df' = map (map_cg_topology cg_atoms embedding_function skip_residues) top_df"
  define idx where "idx = filter (\<lambda>i. mapped (top_df' ! i)) [0..<length top_df']"
  define cg_df where "cg_df = shift_resSeq (renumber_serial (filter mapped top_df'))"
  have st': "top_dataframe s' = Some top_df'" "cg_atom_indices s' = Some idx"
    "cg_dataframe s' = Some cg_df" "cg_map s' = Some (make_cg_map idx (n_atoms traj))"
    using st by (simp_all add: top_df'_def idx_def cg_df_def)
  have rng': "\<forall>i \<in> set idx. i < n_atoms traj"
    using rng by (simp add: top_df'_def idx_def)
  have xyz: "atom_slice_xyz traj idx = Inr (map (\<lambda>frame. map (\<lambda>i. frame ! i) idx) (xyz traj))"
    using rng' by (simp add: atom_slice_xyz_def)
  have p3: "cg_coords s' \<noteq> None \<longrightarrow> os_error w' (templ @ ''cg_coords.npy'') = None"
    and p4: "cg_forces s' \<noteq> None \<longrightarrow> os_error w' (templ @ ''cg_forces.npy'') = None"
    and p5: "save_cg_maps \<and> cg_map s' \<noteq> None \<longrightarrow> os_error w' (templ @ ''cg_coord_map.npy'') = None"
    and p6: "save_cg_maps \<and> force_map s' \<noteq> None \<longrightarrow> os_error w' (templ @ ''cg_force_map.npy'') = None"
    using o3 o4 o5 o6 keep by simp_all
  obtain w'' where sv: "save_cg_output get_output_tag save_dir True save_cg_maps None None (s', w')
                         = (Return (), s', w'')"
    "files w'' (templ @ ''cg_structure.pdb'')
       = Some (PdbFile (map (\<lambda>frame. map (\<lambda>i. frame ! i) idx) (xyz traj)) cg_df)"
    "files w'' (templ @ ''cg_embeds.npy'') = Some (NpyInts (map type cg_df))"
    "files w'' (templ @ ''cg_coords.npy'')
       = (case cg_coords s' of None \<Rightarrow> files w' (templ @ ''cg_coords.npy'') | Some c \<Rightarrow> Some (NpyArray c))"
    "files w'' (templ @ ''cg_forces.npy'')
       = (case cg_forces s' of None \<Rightarrow> files w' (templ @ ''cg_forces.npy'') | Some f \<Rightarrow> Some (NpyArray f))"
    using save_cg_output_no_arrays[where get_output_tag = get_output_tag and w = w'
        and save_cg_maps = save_cg_maps and save_dir = save_dir and templ = templ,
        OF st'(2) st(7) xyz st'(3) templ dir o1 o2 p3 p4 p5 p6]
    by (elim exE conjE) (rule that, assumption+)
  have sv': "\<exists>w''. save_cg_output get_output_tag save_dir True save_cg_maps None None (s', w')
                      = (Return (), s', w'')
               \<and> files w'' (templ @ ''cg_structure.pdb'')
                   = Some (PdbFile (map (\<lambda>frame. map (\<lambda>i. frame ! i) idx) (xyz traj)) cg_df)
               \<and> files w'' (templ @ ''cg_embeds.npy'') = Some (NpyInts (map type cg_df))
               \<and> files w'' (templ @ ''cg_coords.npy'') = Some (NpyArray c)
               \<and> files w'' (templ @ ''cg_forces.npy'') = Some (NpyArray f)"
    using sv keep by (intro exI[of _ w'']) simp
  show ?thesis
    unfolding Let_def
    using src st' st(5) st(6) keep sv'
    unfolding top_df'_def idx_def cg_df_def
    by (intro exI[of _ top_df] exI[of _ traj]) simp
qed

theorem apply_cg_mapping_keeps_projection_witness:
  "top_dataframe (fst (snd demo_remapped))
     = Some [(demo_row 1 ''N'' 1 0)\<lparr>mapped := True, type := 1\<rparr>,
             (demo_row 2 ''CA'' 1 0)\<lparr>mapped := True, type := 2\<rparr>]
   \<and> cg_atom_indices (fst (snd demo_remapped)) = Some [0, 1]
   \<and> cg_map (fst (snd demo_remapped)) = Some [[1, 0], [0, 1]]
   \<and> N_term (fst (snd demo_remapped)) = Some None
   \<and> C_term (fst (snd demo_remapped)) = Some None
   \<and> cg_coords (fst (snd demo_remapped)) = Some \<lparr>shape = [1, 1, 3], data = [1, 1, 1]\<rparr>
   \<and> cg_forces (fst (snd demo_remapped)) = Some \<lparr>shape = [1, 1, 3], data = [7, 7, 7]\<rparr>
   \<and> force_map (fst (snd demo_remapped)) = force_map (fst demo_projected)
   \<and> (\<exists>w'' cg_df. save_cg_output get_output_tag_model ''out'' True True None None (snd demo_remapped)
                     = (Return (), fst (snd demo_remapped), w'')
         \<and> cg_dataframe (fst (snd demo_remapped)) = Some cg_df
         \<and> length cg_df = 2
         \<and> files w'' ''out/demo_mono_cg_structure.pdb''
             = Some (PdbFile [[(0, 0, 0), (1, 1, 1)]] cg_df)
         \<and> files w'' ''out/demo_mono_cg_embeds.npy'' = Some (NpyInts (map type cg_df))
         \<and> files w'' ''out/demo_mono_cg_coords.npy''
             = Some (NpyArray \<lparr>shape = [1, 1, 3], data = [1, 1, 1]\<rparr>)
         \<and> files w'' ''out/demo_mono_cg_forces.npy''
             = Some (NpyArray \<lparr>shape = [1, 1, 3], data = [7, 7, 7]\<rparr>))"
proof -
  have c: "cg_coords (fst demo_projected) = Some \<lparr>shape = [1, 1, 3], data = [1, 1, 1]\<rparr>"
    by code_simp
  have f: "cg_forces (fst demo_projected) = Some \<lparr>shape = [1, 1, 3], data = [7, 7, 7]\<rparr>"
    by code_simp
  have r: "fst demo_remapped = Return ()"
    by code_simp
  have run: "apply_cg_mapping demo_embedding_maps (map_cg_topology_model demo_embedding_functions)
               [''N'', ''CA''] ''embed'' (Some ''demo_embedding'') None (fst demo_projected, snd demo_projected)
             = (Return (), fst (snd demo_remapped), snd (snd demo_remapped))"
    using r by (simp add: demo_remapped_def[symmetric] prod_eq_iff)
  have tg: "tag (fst (snd demo_remapped)) = ''demo''" "sample_name (fst (snd demo_remapped)) = ''mono''"
    by code_simp+
  have templ: "''out/demo_mono_''
                 = os_path_join ''out'' (get_output_tag_model
                     [tag (fst (snd demo_remapped)), sample_name (fst (snd demo_remapped))] ''before'')"
    by (simp add: tg os_path_join_def get_output_tag_model_def)
  have dir: "path_exists (snd (snd demo_remapped)) ''out''
               \<or> (''out'' \<noteq> [] \<and> os_error (snd (snd demo_remapped)) ''out'' = None)"
    by code_simp
  have o: "os_error (snd (snd demo_remapped)) (''out/demo_mono_'' @ ''cg_structure.pdb'') = None"
    "os_error (snd (snd demo_remapped)) (''out/demo_mono_'' @ ''cg_embeds.npy'') = None"
    "os_error (snd (snd demo_remapped)) (''out/demo_mono_'' @ ''cg_coords.npy'') = None"
    "os_error (snd (snd demo_remapped)) (''out/demo_mono_'' @ ''cg_forces.npy'') = None"
    "True \<longrightarrow> os_error (snd (snd demo_remapped)) (''out/demo_mono_'' @ ''cg_coord_map.npy'') = None"
    "True \<and> force_map (fst demo_projected) \<noteq> None
       \<longrightarrow> os_error (snd (snd demo_remapped)) (''out/demo_mono_'' @ ''cg_force_map.npy'') = None"
    by code_simp+
  have src: "top_dataframe (fst demo_projected)
               = Some [(demo_row 1 ''N'' 1 0)\<lparr>mapped := False\<rparr>,
                       (demo_row 2 ''CA'' 1 0)\<lparr>mapped := True, type := 2\<rparr>]"
    "input_traj (fst demo_projected)
       = Some \<lparr>n_atoms = 2, xyz = [[(0, 0, 0), (1, 1, 1)]], topology = \<lparr>chains = [], bonds = []\<rparr>\<rparr>"
    by code_simp+
  have vals: "top_dataframe (fst (snd demo_remapped))
                = Some [(demo_row 1 ''N'' 1 0)\<lparr>mapped := True, type := 1\<rparr>,
                        (demo_row 2 ''CA'' 1 0)\<lparr>mapped := True, type := 2\<rparr>]"
    "cg_atom_indices (fst (snd demo_remapped)) = Some [0, 1]"
    "cg_map (fst (snd demo_remapped)) = Some [[1, 0], [0, 1]]"
    "map_option length (cg_dataframe (fst (snd demo_remapped))) = Some 2"
    by code_simp+
  from apply_cg_mapping_keeps_projection[where get_output_tag = get_output_tag_model
        and save_dir = "''out''" and save_cg_maps = True, OF c f run templ dir o]
  obtain top_df traj where
    inst: "top_dataframe (fst demo_projected) = Some top_df" "input_traj (fst demo_projected) = Some traj"
      "let top_df' = map (map_cg_topology_model demo_embedding_functions [''N'', ''CA''] ''embed'' None) top_df;
           idx = filter (\<lambda>i. mapped (top_df' ! i)) [0..<length top_df'];
           cg_df = shift_resSeq (renumber_serial (filter mapped top_df'))
       in top_dataframe (fst (snd demo_remapped)) = Some top_df'
          \<and> cg_atom_indices (fst (snd demo_remapped)) = Some idx
          \<and> cg_dataframe (fst (snd demo_remapped)) = Some cg_df
          \<and> cg_map (fst (snd demo_remapped)) = Some (make_cg_map idx (n_atoms traj))
          \<and> N_term (fst (snd demo_remapped)) = Some None \<and> C_term (fst (snd demo_remapped)) = Some None
          \<and> cg_coords (fst (snd demo_remapped)) = Some \<lparr>shape = [1, 1, 3], data = [1, 1, 1]\<rparr>
          \<and> cg_forces (fst (snd demo_remapped)) = Some \<lparr>shape = [1, 1, 3], data = [7, 7, 7]\<rparr>
          \<and> force_map (fst (snd demo_remapped)) = force_map (fst demo_projected)
          \<and> (\<exists>w''. save_cg_output get_output_tag_model ''out'' True True None None
                       (fst (snd demo_remapped), snd (snd demo_remapped))
                      = (Return (), fst (snd demo_remapped), w'')
                \<and> files w'' (''out/demo_mono_'' @ ''cg_structure.pdb'')
                    = Some (PdbFile (map (\<lambda>frame. map (\<lambda>i. frame ! i) idx) (xyz traj)) cg_df)
                \<and> files w'' (''out/demo_mono_'' @ ''cg_embeds.npy'') = Some (NpyInts (map type cg_df))
                \<and> files w'' (''out/demo_mono_'' @ ''cg_coords.npy'')
                    = Some (NpyArray \<lparr>shape = [1, 1, 3], data = [1, 1, 1]\<rparr>)
                \<and> files w'' (''out/demo_mono_'' @ ''cg_forces.npy'')
                    = Some (NpyArray \<lparr>shape = [1, 1, 3], data = [7, 7, 7]\<rparr>))"
    by (elim exE conjE) (rule that, assumption+)
  have "traj = \<lparr>n_atoms = 2, xyz = [[(0, 0, 0), (1, 1, 1)]], topology = \<lparr>chains = [], bonds = []\<rparr>\<rparr>"
    using inst(2) src(2) by simp
  then have traj: "xyz traj = [[(0, 0, 0), (1, 1, 1)]]"
    by simp
  define T' where
    "T' = map (map_cg_topology_model demo_embedding_functions [''N'', ''CA''] ''embed'' None) top_df"
  define idx where "idx = filter (\<lambda>i. mapped (T' ! i)) [0..<length T']"
  define cg_df where "cg_df = shift_resSeq (renumber_serial (filter mapped T'))"
  have facts: "top_dataframe (fst (snd demo_remapped)) = Some T'
          \<and> cg_atom_indices (fst (snd demo_remapped)) = Some idx
          \<and> cg_dataframe (fst (snd demo_remapped)) = Some cg_df
          \<and> cg_map (fst (snd demo_remapped)) = Some (make_cg_map idx (n_atoms traj))
          \<and> N_term (fst (snd demo_remapped)) = Some None \<and> C_term (fst (snd demo_remapped)) = Some None
          \<and> cg_coords (fst (snd demo_remapped)) = Some \<lparr>shape = [1, 1, 3], data = [1, 1, 1]\<rparr>
          \<and> cg_forces (fst (snd demo_remapped)) = Some \<lparr>shape = [1, 1, 3], data = [7, 7, 7]\<rparr>
          \<and> force_map (fst (snd demo_remapped)) = force_map (fst demo_projected)
          \<and> (\<exists>w''. save_cg_output get_output_tag_model ''out'' True True None None
                       (fst (snd demo_remapped), snd (snd demo_remapped))
                      = (Return (), fst (snd demo_remapped), w'')
                \<and> files w'' (''out/demo_mono_'' @ ''cg_structure.pdb'')
                    = Some (PdbFile (map (\<lambda>frame. map (\<lambda>i. frame ! i) idx) (xyz traj)) cg_df)
                \<and> files w'' (''out/demo_mono_'' @ ''cg_embeds.npy'') = Some (NpyInts (map type cg_df))
                \<and> files w'' (''out/demo_mono_'' @ ''cg_coords.npy'')
                    = Some (NpyArray \<lparr>shape = [1, 1, 3], data = [1, 1, 1]\<rparr>)
                \<and> files w'' (''out/demo_mono_'' @ ''cg_forces.npy'')
                    = Some (NpyArray \<lparr>shape = [1, 1, 3], data = [7, 7, 7]\<rparr>))"
    using inst(3) unfolding Let_def T'_def idx_def cg_df_def .
  then obtain w'' where f1: "N_term (fst (snd demo_remapped)) = Some None"
      "C_term (fst (snd demo_remapped)) = Some None"
      "cg_coords (fst (snd demo_remapped)) = Some \<lparr>shape = [1, 1, 3], data = [1, 1, 1]\<rparr>"
      "cg_forces (fst (snd demo_remapped)) = Some \<lparr>shape = [1, 1, 3], data = [7, 7, 7]\<rparr>"
      "force_map (fst (snd demo_remapped)) = force_map (fst demo_projected)"
    and f2: "cg_atom_indices (fst (snd demo_remapped)) = Some idx"
      "cg_dataframe (fst (snd demo_remapped)) = Some cg_df"
    and f3: "save_cg_output get_output_tag_model ''out'' True True None None
               (fst (snd demo_remapped), snd (snd demo_remapped))
             = (Return (), fst (snd demo_remapped), w'')"
      "files w'' (''out/demo_mono_'' @ ''cg_structure.pdb'')
         = Some (PdbFile (map (\<lambda>frame. map (\<lambda>i. frame ! i) idx) (xyz traj)) cg_df)"
      "files w'' (''out/demo_mono_'' @ ''cg_embeds.npy'') = Some (NpyInts (map type cg_df))"
      "files w'' (''out/demo_mono_'' @ ''cg_coords.npy'')
         = Some (NpyArray \<lparr>shape = [1, 1, 3], data = [1, 1, 1]\<rparr>)"
      "files w'' (''out/demo_mono_'' @ ''cg_forces.npy'')
         = Some (NpyArray \<lparr>shape = [1, 1, 3], data = [7, 7, 7]\<rparr>)"
    by (elim exE conjE) (rule that, assumption+)
  have i: "idx = [0, 1]" using f2(1) vals(2) by simp
  have l: "length cg_df = 2" using f2(2) vals(4) by simp
  have pdb: "files w'' ''out/demo_mono_cg_structure.pdb'' = Some (PdbFile [[(0, 0, 0), (1, 1, 1)]] cg_df)"
    using f3(2) by (simp add: i traj)
  have sv: "\<exists>w'' cg_df. save_cg_output get_output_tag_model ''out'' True True None None (snd demo_remapped)
                     = (Return (), fst (snd demo_remapped), w'')
         \<and> cg_dataframe (fst (snd demo_remapped)) = Some cg_df
         \<and> length cg_df = 2
         \<and> files w'' ''out/demo_mono_cg_structure.pdb''
             = Some (PdbFile [[(0, 0, 0), (1, 1, 1)]] cg_df)
         \<and> files w'' ''out/demo_mono_cg_embeds.npy'' = Some (NpyInts (map type cg_df))
         \<and> files w'' ''out/demo_mono_cg_coords.npy''
             = Some (NpyArray \<lparr>shape = [1, 1, 3], data = [1, 1, 1]\<rparr>)
         \<and> files w'' ''out/demo_mono_cg_forces.npy''
             = Some (NpyArray \<lparr>shape = [1, 1, 3], data = [7, 7, 7]\<rparr>)"
    using f3(1) f2(2) l pdb f3(3) f3(4) f3(5)
    by (intro exI[of _ w''] exI[of _ cg_df]) simp
  show ?thesis
    using vals(1) vals(2) vals(3) f1 sv by (intro conjI) assumption+
qed

text \<open>
  Claim C4 as stated fails: the coordinates and forces projected under the mapping onto
  the CA atom (one particle) are saved next to the embeddings of the later mapping onto N
  and CA (two particles).
\<close>

theorem save_cg_output_stale_projection_counterexample:
  "fst demo_remap_run = Return ()
   \<and> files (snd (snd demo_remap_run)) ''out/demo_mono_cg_embeds.npy'' = Some (NpyInts [1, 2])
   \<and> files (snd (snd demo_remap_run)) ''out/demo_mono_cg_coords.npy''
       = Some (NpyArray \<lparr>shape = [1, 1, 3], data = [1, 1, 1]\<rparr>)
   \<and> files (snd (snd demo_remap_run)) ''out/demo_mono_cg_forces.npy''
       = Some (NpyArray \<lparr>shape = [1, 1, 3], data = [7, 7, 7]\<rparr>)"
  by code_simp

section \<open>Properties of \<^verbatim>\<open>get_prior_nls\<close>\<close>

lemma fold_add_bond:
  "fold (\<lambda>i t. add_bond t (f i) (g i)) js t
     = t\<lparr>bonds := bonds t @ map (\<lambda>i. if index (f i) < index (g i) then (f i, g i) else (g i, f i)) js\<rparr>"
  by (induction js arbitrary: t) (simp_all add: add_bond_def)

lemma add_chain_bonds_eq:
  "add_chain_bonds ch t
     = t\<lparr>bonds := bonds t @ map (\<lambda>i. if index (ch ! i) < index (ch ! (i + 1))
                                       then (ch ! i, ch ! (i + 1)) else (ch ! (i + 1), ch ! i))
                               [0..<length ch - 1]\<rparr>"
  unfolding add_chain_bonds_def by (simp add: fold_add_bond)

lemma zip_butlast_tl:
  "zip (butlast xs) (tl xs) = map (\<lambda>i. (xs ! i, xs ! (i + 1))) [0..<length xs - 1]"
  by (simp add: list_eq_iff_nth_eq nth_butlast nth_tl)

lemma dense_consecutive:
  assumes dense: "map index (concat (map chain_atoms chs)) = [0..<n]"
    and ch: "ch \<in> set chs" and i: "Suc i < length (chain_atoms ch)"
  shows "index (chain_atoms ch ! Suc i) = Suc (index (chain_atoms ch ! i))"
proof -
  obtain xs ys where chs: "chs = xs @ ch # ys"
    using ch by (auto simp: in_set_conv_decomp)
  define A where "A = concat (map chain_atoms xs)"
  define B where "B = concat (map chain_atoms ys)"
  define al where "al = A @ chain_atoms ch @ B"
  have al: "concat (map chain_atoms chs) = al"
    by (simp add: chs al_def A_def B_def)
  have len: "length al = n"
    using dense al by (metis length_map length_upt diff_zero)
  have idx: "index (al ! k) = k" if "k < n" for k
  proof -
    have "map index al ! k = [0..<n] ! k" using dense al by simp
    then show ?thesis using that len by simp
  qed
  have nth: "chain_atoms ch ! j = al ! (length A + j)" if "j < length (chain_atoms ch)" for j
    using that by (simp add: al_def nth_append)
  have lt: "length A + Suc i < n"
    using i len by (simp add: al_def)
  have "index (chain_atoms ch ! Suc i) = length A + Suc i"
    using nth[of "Suc i"] idx[OF lt] i by simp
  moreover have "index (chain_atoms ch ! i) = length A + i"
    using nth[of i] idx[of "length A + i"] lt i by simp
  ultimately show ?thesis by simp
qed

lemma chain_bonds_dense:
  assumes dense: "map index (concat (map chain_atoms chs)) = [0..<n]" and ch: "ch \<in> set chs"
  shows "map (\<lambda>i. if index (chain_atoms ch ! i) < index (chain_atoms ch ! (i + 1))
                  then (chain_atoms ch ! i, chain_atoms ch ! (i + 1))
                  else (chain_atoms ch ! (i + 1), chain_atoms ch ! i))
           [0..<length (chain_atoms ch) - 1]
         = zip (butlast (chain_atoms ch)) (tl (chain_atoms ch))"
  unfolding zip_butlast_tl
  by (rule map_cong) (use dense_consecutive[OF dense ch] in auto)

lemma fold_chain_bonds:
  "fold (\<lambda>chain t. add_chain_bonds (chain_atoms chain) t) chs t
     = t\<lparr>bonds := bonds t @ concat (map (\<lambda>ch.
            map (\<lambda>i. if index (chain_atoms ch ! i) < index (chain_atoms ch ! (i + 1))
                     then (chain_atoms ch ! i, chain_atoms ch ! (i + 1))
                     else (chain_atoms ch ! (i + 1), chain_atoms ch ! i))
              [0..<length (chain_atoms ch) - 1]) chs)\<rparr>"
  by (induction chs arbitrary: t) (simp_all add: add_chain_bonds_eq)

lemma add_CA_bonds_dense:
  assumes names: "set (map atom_name (atoms cg_top)) = {''CA''}"
    and dense: "map index (atoms cg_top) = [0..<length (atoms cg_top)]"
  shows "add_CA_bonds cg_top
           = cg_top\<lparr>bonds := bonds cg_top
               @ concat (map (\<lambda>ch. zip (butlast (chain_atoms ch)) (tl (chain_atoms ch))) (chains cg_top))\<rparr>"
proof -
  have d: "map index (concat (map chain_atoms (chains cg_top))) = [0..<length (atoms cg_top)]"
    using dense by (simp add: atoms_def)
  have "map (\<lambda>ch. map (\<lambda>i. if index (chain_atoms ch ! i) < index (chain_atoms ch ! (i + 1))
                     then (chain_atoms ch ! i, chain_atoms ch ! (i + 1))
                     else (chain_atoms ch ! (i + 1), chain_atoms ch ! i))
              [0..<length (chain_atoms ch) - 1]) (chains cg_top)
        = map (\<lambda>ch. zip (butlast (chain_atoms ch)) (tl (chain_atoms ch))) (chains cg_top)"
    by (rule map_cong[OF refl]) (rule chain_bonds_dense[OF d])
  then have "fold (\<lambda>chain t. add_chain_bonds (chain_atoms chain) t) (chains cg_top) cg_top
               = cg_top\<lparr>bonds := bonds cg_top
                   @ concat (map (\<lambda>ch. zip (butlast (chain_atoms ch)) (tl (chain_atoms ch))) (chains cg_top))\<rparr>"
    by (simp only: fold_chain_bonds)
  moreover have "add_CA_bonds cg_top
                   = fold (\<lambda>chain t. add_chain_bonds (chain_atoms chain) t) (chains cg_top) cg_top"
    using names by (simp add: add_CA_bonds_def)
  ultimately show ?thesis by simp
qed

lemma consecutive_pairs_index:
  assumes dense: "map index (atoms cg_top) = [0..<length (atoms cg_top)]"
    and ch: "ch \<in> set (chains cg_top)"
    and p: "p \<in> set (zip (butlast (chain_atoms ch)) (tl (chain_atoms ch)))"
  shows "index (snd p) = index (fst p) + 1"
proof -
  have d: "map index (concat (map chain_atoms (chains cg_top))) = [0..<length (atoms cg_top)]"
    using dense by (simp add: atoms_def)
  from p obtain i where i: "i < length (chain_atoms ch) - 1"
    and pi: "p = (chain_atoms ch ! i, chain_atoms ch ! (i + 1))"
    unfolding zip_butlast_tl by auto
  have "Suc i < length (chain_atoms ch)" using i by simp
  from dense_consecutive[OF d ch this] show ?thesis by (simp add: pi)
qed

text \<open>
  Claim C2, as amended. Let \<open>cg_top\<close> be the sliced topology, its atoms indexed in their
  order, as a sliced topology is. \<^verbatim>\<open>get_prior_nls\<close> enumerates the edges on the topology
  \<open>cg_top'\<close>: when every atom is named CA, that is \<open>cg_top\<close> with, after the bonds there were,
  chain by chain, the pairs of each atom of the chain with the next one; for any other set of
  names it is \<open>cg_top\<close> itself, no bond is added. A chain of \<open>n\<close> atoms so gets \<open>n - 1\<close> bonds
  (none when it is empty), each from an index \<open>i\<close> to \<open>i + 1\<close>; when there was no bond
  before, these are all the bonds. The method returns the neighbour lists of these edges, for
  the builders as \<^verbatim>\<open>get_terminal_atoms\<close> leaves them when one of them asks for separate termini
  (the CG table, \<^verbatim>\<open>N_term\<close> and \<^verbatim>\<open>C_term\<close> are then needed), and, with \<^verbatim>\<open>save_nls\<close> true (the
  keyword arguments \<^verbatim>\<open>save_dir\<close> and \<^verbatim>\<open>prior_tag\<close> are then needed, and the file must be
  writable), it has written them to the pickle file.
\<close>

theorem get_prior_nls_CA_bonds:
  assumes traj: "input_traj s = Some traj" and idx: "cg_atom_indices s = Some idx"
    and top: "cg_top = topology_subset (topology traj) idx"
    and dense: "map index (atoms cg_top) = [0..<length (atoms cg_top)]"
    and trm: "(\<exists>pb \<in> set prior_builders. separate_termini pb)
                 \<longrightarrow> cg_dataframe s = Some df \<and> N_term s = Some nt \<and> C_term s = Some ct"
    and pbs: "prior_builders'
                = (if \<exists>pb \<in> set prior_builders. separate_termini pb
                   then map (\<lambda>pb. if separate_termini pb then get_terminal_atoms pb df nt ct else pb)
                          prior_builders
                   else prior_builders)"
    and save: "save_nls
                 \<longrightarrow> map_of kwargs ''save_dir'' = Some save_dir
                   \<and> map_of kwargs ''prior_tag'' = Some prior_tag
                   \<and> ofile = os_path_join save_dir
                               (get_output_tag [tag s, sample_name s] ''before''
                                  @ ''prior_nls_'' @ prior_tag @ ''.pkl'')
                   \<and> os_error w ofile = None"
    and top': "cg_top'
                 = (if set (map atom_name (atoms cg_top)) = {''CA''}
                    then cg_top\<lparr>bonds := bonds cg_top
                           @ concat (map (\<lambda>ch. zip (butlast (chain_atoms ch)) (tl (chain_atoms ch)))
                                       (chains cg_top))\<rparr>
                    else cg_top)"
    and nls: "prior_nls = fold (\<lambda>(tg, order, edge) d. dict_set d tg (NeighborList tg order edge))
                            (get_edges_and_orders prior_builders' cg_top') []"
  shows "get_prior_nls separate_termini get_terminal_atoms topology_subset get_edges_and_orders
             get_output_tag prior_builders save_nls kwargs (s, w)
           = (Return prior_nls, s,
              if save_nls then w\<lparr>files := (files w)(ofile \<mapsto> PickleNls prior_nls)\<rparr> else w)
         \<and> chains cg_top' = chains cg_top
         \<and> (\<forall>ch \<in> set (chains cg_top).
                length (zip (butlast (chain_atoms ch)) (tl (chain_atoms ch))) = length (chain_atoms ch) - 1
              \<and> (\<forall>p \<in> set (zip (butlast (chain_atoms ch)) (tl (chain_atoms ch))).
                    index (snd p) = index (fst p) + 1))
         \<and> (set (map atom_name (atoms cg_top)) = {''CA''} \<and> bonds cg_top = [] \<longrightarrow>
               length (bonds cg_top') = sum_list (map (\<lambda>ch. length (chain_atoms ch) - 1) (chains cg_top)))
         \<and> (set (map atom_name (atoms cg_top)) \<noteq> {''CA''} \<longrightarrow> bonds cg_top' = bonds cg_top)"
proof -
  have ca: "add_CA_bonds cg_top = cg_top'"
  proof (cases "set (map atom_name (atoms cg_top)) = {''CA''}")
    case True
    then show ?thesis using add_CA_bonds_dense[OF True dense] by (simp add: top')
  next
    case False
    then show ?thesis by (simp add: add_CA_bonds_def top')
  qed
  have pb: "(if \<exists>pb \<in> set prior_builders. separate_termini pb
             then (case (cg_dataframe s, N_term s, C_term s) of
                     (Some df, Some nt, Some ct) \<Rightarrow>
                       Inr (map (\<lambda>pb. if separate_termini pb then get_terminal_atoms pb df nt ct else pb)
                              prior_builders)
                   | _ \<Rightarrow> Inl AttributeError)
             else Inr prior_builders) = Inr prior_builders'"
    using trm by (auto simp: pbs)
  have run: "get_prior_nls separate_termini get_terminal_atoms topology_subset get_edges_and_orders
               get_output_tag prior_builders save_nls kwargs (s, w)
             = (Return prior_nls, s,
                if save_nls then w\<lparr>files := (files w)(ofile \<mapsto> PickleNls prior_nls)\<rparr> else w)"
  proof (cases save_nls)
    case True
    then have k: "map_of kwargs ''save_dir'' = Some save_dir" "map_of kwargs ''prior_tag'' = Some prior_tag"
      and o: "ofile = os_path_join save_dir
                        (get_output_tag [tag s, sample_name s] ''before''
                           @ ''prior_nls_'' @ prior_tag @ ''.pkl'')"
      and e: "os_error w ofile = None"
      using save by blast+
    have wr: "write_file ofile (PickleNls prior_nls) w
                = Inr (w\<lparr>files := (files w)(ofile \<mapsto> PickleNls prior_nls)\<rparr>)"
      using e by (simp add: write_file_def)
    show ?thesis
      unfolding get_prior_nls_def
      using True wr unfolding o
      by (simp add: pb traj idx top[symmetric] ca nls[symmetric] kwarg_def k Let_def)
  next
    case False
    then show ?thesis
      unfolding get_prior_nls_def
      by (simp add: pb traj idx top[symmetric] ca nls[symmetric] Let_def)
  qed
  have ch: "chains cg_top' = chains cg_top"
    by (simp add: top')
  have per: "\<forall>ch \<in> set (chains cg_top).
                length (zip (butlast (chain_atoms ch)) (tl (chain_atoms ch))) = length (chain_atoms ch) - 1
              \<and> (\<forall>p \<in> set (zip (butlast (chain_atoms ch)) (tl (chain_atoms ch))).
                    index (snd p) = index (fst p) + 1)"
    using consecutive_pairs_index[OF dense] by simp
  have cnt: "set (map atom_name (atoms cg_top)) = {''CA''} \<and> bonds cg_top = [] \<longrightarrow>
               length (bonds cg_top') = sum_list (map (\<lambda>ch. length (chain_atoms ch) - 1) (chains cg_top))"
    by (simp add: top' length_concat comp_def)
  have other: "set (map atom_name (atoms cg_top)) \<noteq> {''CA''} \<longrightarrow> bonds cg_top' = bonds cg_top"
    by (simp add: top')
  show ?thesis
    using run ch per cnt other by (intro conjI) assumption+
qed

theorem get_prior_nls_CA_bonds_witness:
  "get_prior_nls demo_separate_termini demo_get_terminal_atoms demo_topology_subset
       get_edges_and_orders_model get_output_tag_model [()] True
       [(''save_dir'', ''out''), (''prior_tag'', ''demo'')] (demo_CA_collection, demo_world)
     = (Return [(''bonds'', NeighborList ''bonds'' 2
                   [[0, 1], [1, 2], [2, 3], [3, 4], [5, 6], [6, 7], [7, 8], [8, 9]])],
        demo_CA_collection,
        demo_world\<lparr>files := (files demo_world)
          (''out/demo_ca_prior_nls_demo.pkl'' \<mapsto>
             PickleNls [(''bonds'', NeighborList ''bonds'' 2
                           [[0, 1], [1, 2], [2, 3], [3, 4], [5, 6], [6, 7], [7, 8], [8, 9]])])\<rparr>)
   \<and> map (\<lambda>ch. length (zip (butlast (chain_atoms ch)) (tl (chain_atoms ch))))
       (chains demo_CA_topology) = [4, 4]"
proof -
  define cg_top' where
    "cg_top' = (if set (map atom_name (atoms demo_CA_topology)) = {''CA''}
                then demo_CA_topology\<lparr>bonds := bonds demo_CA_topology
                       @ concat (map (\<lambda>ch. zip (butlast (chain_atoms ch)) (tl (chain_atoms ch)))
                                   (chains demo_CA_topology))\<rparr>
                else demo_CA_topology)"
  have traj: "input_traj demo_CA_collection = Some \<lparr>n_atoms = 10, xyz = [], topology = demo_CA_topology\<rparr>"
    and idx: "cg_atom_indices demo_CA_collection = Some [0, 1, 2, 3, 4, 5, 6, 7, 8, 9]"
    by (simp_all add: demo_CA_collection_def SampleCollection_init_def)
  have top: "demo_CA_topology
               = demo_topology_subset (topology \<lparr>n_atoms = 10, xyz = [], topology = demo_CA_topology\<rparr>)
                   [0, 1, 2, 3, 4, 5, 6, 7, 8, 9]"
    by (simp add: demo_topology_subset_def)
  have dense: "map index (atoms demo_CA_topology) = [0..<length (atoms demo_CA_topology)]"
    by code_simp
  have trm: "(\<exists>pb \<in> set [()]. demo_separate_termini pb)
                \<longrightarrow> cg_dataframe demo_CA_collection = Some []
                  \<and> N_term demo_CA_collection = Some None \<and> C_term demo_CA_collection = Some None"
    by (simp add: demo_separate_termini_def)
  have pbs: "[()] = (if \<exists>pb \<in> set [()]. demo_separate_termini pb
                     then map (\<lambda>pb. if demo_separate_termini pb
                                     then demo_get_terminal_atoms pb [] None None else pb) [()]
                     else [()])"
    by (simp add: demo_separate_termini_def)
  have save: "True
                \<longrightarrow> map_of [(''save_dir'', ''out''), (''prior_tag'', ''demo'')] ''save_dir'' = Some ''out''
                  \<and> map_of [(''save_dir'', ''out''), (''prior_tag'', ''demo'')] ''prior_tag'' = Some ''demo''
                  \<and> ''out/demo_ca_prior_nls_demo.pkl''
                      = os_path_join ''out''
                          (get_output_tag_model [tag demo_CA_collection, sample_name demo_CA_collection]
                             ''before'' @ ''prior_nls_'' @ ''demo'' @ ''.pkl'')
                  \<and> os_error demo_world ''out/demo_ca_prior_nls_demo.pkl'' = None"
    by code_simp
  have nls: "[(''bonds'', NeighborList ''bonds'' 2
                 [[0, 1], [1, 2], [2, 3], [3, 4], [5, 6], [6, 7], [7, 8], [8, 9]])]
               = fold (\<lambda>(tg, order, edge) d. dict_set d tg (NeighborList tg order edge))
                   (get_edges_and_orders_model [()] cg_top') []"
    unfolding cg_top'_def by code_simp
  have len: "map (\<lambda>ch. length (zip (butlast (chain_atoms ch)) (tl (chain_atoms ch))))
               (chains demo_CA_topology) = [4, 4]"
    by code_simp
  show ?thesis
    using get_prior_nls_CA_bonds[where separate_termini = demo_separate_termini
        and get_terminal_atoms = demo_get_terminal_atoms and topology_subset = demo_topology_subset
        and get_edges_and_orders = get_edges_and_orders_model
        and get_output_tag = get_output_tag_model and prior_builders = "[()]"
        and w = demo_world and save_nls = True,
        OF traj idx top dense trm pbs save cg_top'_def nls] len
    by simp
qed

text \<open>
  Claim C2 as stated fails for any other single name: five beads that are all named CB,
  without bonds, get no bond.
\<close>

theorem get_prior_nls_CB_counterexample:
  "set (map atom_name (atoms demo_CB_topology)) = {''CB''}
   \<and> bonds demo_CB_topology = []
   \<and> bonds (add_CA_bonds demo_CB_topology) = []
   \<and> fst (get_prior_nls demo_separate_termini demo_get_terminal_atoms demo_topology_subset
          get_edges_and_orders_model
          get_output_tag_model [()] False [] (demo_CB_collection, demo_world))
       = Return [(''bonds'', NeighborList ''bonds'' 2 [])]"
  by code_simp

section \<open>Properties of \<^verbatim>\<open>add_terminal_embeddings\<close>\<close>

lemma fold_min_Min: "fold min vs (v::int) = Min (set (v # vs))"
  by (simp only: Min.set_eq_fold)

lemma fold_max_Max: "fold max vs (v::int) = Max (set (v # vs))"
  by (simp only: Max.set_eq_fold)

lemma series_min_Some:
  assumes "x \<in> set xs"
  shows "(Some x = series_min xs) = (\<forall>y \<in> set xs. x \<le> y)"
proof -
  obtain v vs where xs: "xs = v # vs" using assms by (cases xs) auto
  have m: "series_min xs = Some (Min (set xs))"
    by (simp add: series_min_def xs fold_min_Min)
  have "(x = Min (set xs)) = (\<forall>y \<in> set xs. x \<le> y)"
    using assms by (metis List.finite_set Min_eqI Min_le)
  then show ?thesis by (auto simp: m)
qed

lemma series_max_Some:
  assumes "x \<in> set xs"
  shows "(Some x = series_max xs) = (\<forall>y \<in> set xs. y \<le> x)"
proof -
  obtain v vs where xs: "xs = v # vs" using assms by (cases xs) auto
  have m: "series_max xs = Some (Max (set xs))"
    by (simp add: series_max_def xs fold_max_Max)
  have "(x = Max (set xs)) = (\<forall>y \<in> set xs. y \<le> x)"
    using assms by (metis List.finite_set Max_eqI Max_ge)
  then show ?thesis by (auto simp: m)
qed

lemma set_unique: "set (unique xs) = set xs"
  by (simp add: unique_def)

lemma mem_N_term_atom:
  "i \<in> set (N_term_atom df n) \<longleftrightarrow> i < length df \<and> name (df ! i) = n \<and> at_chain_min df i"
proof (cases "i < length df")
  case False
  then show ?thesis by (auto simp: N_term_atom_def)
next
  case True
  define c where "c = chainID (df ! i)"
  have cin: "c \<in> set (map chainID df)" using True by (simp add: c_def)
  have xin: "resSeq (df ! i) \<in> set (map resSeq (filter (\<lambda>r. chainID r = c) df))"
    using True by (auto simp: c_def intro!: image_eqI[where x = "df ! i"])
  have "i \<in> set (N_term_atom df n)
          \<longleftrightarrow> Some (resSeq (df ! i)) = series_min (map resSeq (filter (\<lambda>r. chainID r = c) df))
              \<and> name (df ! i) = n"
    using True cin by (auto simp: N_term_atom_def set_unique c_def Let_def)
  also have "Some (resSeq (df ! i)) = series_min (map resSeq (filter (\<lambda>r. chainID r = c) df))
               \<longleftrightarrow> at_chain_min df i"
    unfolding series_min_Some[OF xin] by (auto simp: at_chain_min_def list_all_iff c_def)
  finally show ?thesis using True by auto
qed

lemma mem_C_term_atom:
  "i \<in> set (C_term_atom df n) \<longleftrightarrow> i < length df \<and> name (df ! i) = n \<and> at_chain_max df i"
proof (cases "i < length df")
  case False
  then show ?thesis by (auto simp: C_term_atom_def)
next
  case True
  define c where "c = chainID (df ! i)"
  have cin: "c \<in> set (map chainID df)" using True by (simp add: c_def)
  have xin: "resSeq (df ! i) \<in> set (map resSeq (filter (\<lambda>r. chainID r = c) df))"
    using True by (auto simp: c_def intro!: image_eqI[where x = "df ! i"])
  have "i \<in> set (C_term_atom df n)
          \<longleftrightarrow> Some (resSeq (df ! i)) = series_max (map resSeq (filter (\<lambda>r. chainID r = c) df))
              \<and> name (df ! i) = n"
    using True cin by (auto simp: C_term_atom_def set_unique c_def Let_def)
  also have "Some (resSeq (df ! i)) = series_max (map resSeq (filter (\<lambda>r. chainID r = c) df))
               \<longleftrightarrow> at_chain_max df i"
    unfolding series_max_Some[OF xin] by (auto simp: at_chain_max_def list_all_iff c_def)
  finally show ?thesis using True by auto
qed

lemma length_set_types: "length (set_types idxs code df) = length df"
  unfolding set_types_def by (induction idxs arbitrary: df) simp_all

lemma set_types_nth:
  assumes "i < length df"
  shows "set_types idxs code df ! i = (if i \<in> set idxs then (df ! i)\<lparr>type := code\<rparr> else df ! i)"
  using assms unfolding set_types_def
proof (induction idxs arbitrary: df)
  case Nil
  then show ?case by simp
next
  case (Cons a idxs)
  show ?case
  proof (cases "a = i")
    case True
    then show ?thesis using Cons by simp
  next
    case False
    then show ?thesis using Cons by simp
  qed
qed


lemma dict_set_absent:
  assumes "map_of d k = None"
  shows "dict_set d k v = d @ [(k, v)]"
  using assms by (induction d) (auto split: if_splits)

lemma terminal_code_eq:
  assumes "d \<noteq> []"
  shows "terminal_code key d = Inr (with_lazy_code key d, lazy_code key d)"
proof -
  obtain p ps where d: "d = p # ps" using assms by (cases d) auto
  have m: "max_values d = Inr (Max (set (map snd d)))"
    by (simp add: max_values_def d fold_max_Max)
  show ?thesis
  proof (cases "map_of d key")
    case None
    then show ?thesis
      by (simp add: terminal_code_def m with_lazy_code_def lazy_code_def dict_set_absent)
  next
    case (Some c)
    then show ?thesis
      by (simp add: terminal_code_def with_lazy_code_def lazy_code_def)
  qed
qed

lemma lazy_code_fresh:
  assumes "map_of d key = None"
  shows "lazy_code key d \<notin> set (map snd d)"
proof
  assume a: "lazy_code key d \<in> set (map snd d)"
  have c: "lazy_code key d = Max (set (map snd d)) + 1"
    using assms by (simp add: lazy_code_def)
  have "lazy_code key d \<le> Max (set (map snd d))"
    by (rule Max_ge[OF _ a]) simp
  then show False using c by simp
qed

lemma with_lazy_code_nonempty: "d \<noteq> [] \<Longrightarrow> with_lazy_code key d \<noteq> []"
  by (simp add: with_lazy_code_def split: option.split)

lemma N_phase_row:
  assumes "i < length df"
  shows "set_types (N_term_atom df n) code df ! i
           = (df ! i)\<lparr>type := (if name (df ! i) = n \<and> at_chain_min df i then code else type (df ! i))\<rparr>"
  using assms by (simp add: set_types_nth mem_N_term_atom)

lemma C_phase_row:
  assumes "i < length df"
  shows "set_types (C_term_atom df c) code df ! i
           = (df ! i)\<lparr>type := (if name (df ! i) = c \<and> at_chain_max df i then code else type (df ! i))\<rparr>"
  using assms by (simp add: set_types_nth mem_C_term_atom)

lemma at_chain_max_cong:
  assumes len: "length df1 = length df"
    and col: "\<And>j. j < length df \<Longrightarrow> chainID (df1 ! j) = chainID (df ! j) \<and> resSeq (df1 ! j) = resSeq (df ! j)"
    and i: "i < length df"
  shows "at_chain_max df1 i = at_chain_max df i"
  using len col i by (simp add: at_chain_max_def list_all_length)

lemma assign_N_term_Some:
  assumes "cg_dataframe s = Some df" and "embedding_dict s = Some d" and "d \<noteq> []"
  shows "assign_N_term (Some n) s
           = (Return (),
              s\<lparr>embedding_dict := Some (with_lazy_code ''N_term'' d),
                cg_dataframe := Some (set_types (N_term_atom df n) (lazy_code ''N_term'' d) df)\<rparr>)"
  using assms by (simp add: assign_N_term_def terminal_code_eq)

lemma assign_C_term_Some:
  assumes "cg_dataframe s = Some df" and "embedding_dict s = Some d" and "d \<noteq> []"
  shows "assign_C_term (Some c) s
           = (Return (),
              s\<lparr>embedding_dict := Some (with_lazy_code ''C_term'' d),
                cg_dataframe := Some (set_types (C_term_atom df c) (lazy_code ''C_term'' d) df)\<rparr>)"
  using assms by (simp add: assign_C_term_def terminal_code_eq)

text \<open>
  Claim C3. On a collection with a CG table and a non-empty embedding dictionary the method
  returns, and every row keeps all its columns but \<^verbatim>\<open>type\<close>. The code of a row becomes the
  C-terminal code exactly when a C-terminal name is given, the row has that name and it is
  at the maximum \<^verbatim>\<open>resSeq\<close> of its chain; otherwise it becomes the N-terminal code exactly
  when an N-terminal name is given, the row has that name and it is at the minimum
  \<^verbatim>\<open>resSeq\<close> of its chain; otherwise it is unchanged (so \<^verbatim>\<open>None\<close> for a terminus changes no
  code for that terminus). Each terminal code is the one the dictionary has for its key,
  else the maximum of the codes of the dictionary plus one, entered under the key and
  different from every code the dictionary had; the C-terminal code is allocated after the
  N-terminal one, from the dictionary that the first block has left.
\<close>

theorem add_terminal_embeddings_codes:
  assumes df: "cg_dataframe s = Some df" and d: "embedding_dict s = Some d" and ne: "d \<noteq> []"
    and dN: "dN = (case N_term_arg of None \<Rightarrow> d | Some n \<Rightarrow> with_lazy_code ''N_term'' d)"
    and dC: "dC = (case C_term_arg of None \<Rightarrow> dN | Some c \<Rightarrow> with_lazy_code ''C_term'' dN)"
    and codeN: "codeN = lazy_code ''N_term'' d"
    and codeC: "codeC = lazy_code ''C_term'' dN"
  shows "\<exists>s' df'.
           add_terminal_embeddings N_term_arg C_term_arg (s, w) = (Return (), s', w)
         \<and> N_term s' = Some N_term_arg \<and> C_term s' = Some C_term_arg
         \<and> embedding_dict s' = Some dC
         \<and> cg_dataframe s' = Some df' \<and> length df' = length df
         \<and> (\<forall>i < length df.
               df' ! i = (df ! i)\<lparr>type :=
                 (if C_term_arg = Some (name (df ! i)) \<and> at_chain_max df i then codeC
                  else if N_term_arg = Some (name (df ! i)) \<and> at_chain_min df i then codeN
                  else type (df ! i))\<rparr>)
         \<and> (map_of d ''N_term'' = None \<longrightarrow> codeN \<notin> set (map snd d))
         \<and> (map_of dN ''C_term'' = None \<longrightarrow> codeC \<notin> set (map snd dN))"
proof -
  define s1 where "s1 = s\<lparr>N_term := Some N_term_arg, C_term := Some C_term_arg\<rparr>"
  have s1: "cg_dataframe s1 = Some df" "embedding_dict s1 = Some d"
    "N_term s1 = Some N_term_arg" "C_term s1 = Some C_term_arg"
    by (simp_all add: s1_def df d)
  define df1 where
    "df1 = (case N_term_arg of None \<Rightarrow> df | Some n \<Rightarrow> set_types (N_term_atom df n) codeN df)"
  define s2 where "s2 = s1\<lparr>embedding_dict := Some dN, cg_dataframe := Some df1\<rparr>"
  have nph: "assign_N_term N_term_arg s1 = (Return (), s2)"
  proof (cases N_term_arg)
    case None
    then show ?thesis by (simp add: assign_N_term_def s2_def dN df1_def s1_def df d)
  next
    case (Some n)
    then show ?thesis
      using assign_N_term_Some[OF s1(1) s1(2) ne] by (simp add: s2_def dN df1_def codeN)
  qed
  have s2: "cg_dataframe s2 = Some df1" "embedding_dict s2 = Some dN"
    "N_term s2 = Some N_term_arg" "C_term s2 = Some C_term_arg"
    by (simp_all add: s2_def s1)
  have neN: "dN \<noteq> []"
    using ne by (simp add: dN with_lazy_code_nonempty split: option.split)
  have len1: "length df1 = length df"
    by (simp add: df1_def length_set_types split: option.split)
  have row1: "df1 ! i = (df ! i)\<lparr>type :=
                 (if N_term_arg = Some (name (df ! i)) \<and> at_chain_min df i then codeN
                  else type (df ! i))\<rparr>" if "i < length df" for i
    using that by (cases N_term_arg) (auto simp: df1_def N_phase_row)
  define df2 where
    "df2 = (case C_term_arg of None \<Rightarrow> df1 | Some c \<Rightarrow> set_types (C_term_atom df1 c) codeC df1)"
  define s3 where "s3 = s2\<lparr>embedding_dict := Some dC, cg_dataframe := Some df2\<rparr>"
  have cph: "assign_C_term C_term_arg s2 = (Return (), s3)"
  proof (cases C_term_arg)
    case None
    then show ?thesis by (simp add: assign_C_term_def s3_def dC df2_def s2_def)
  next
    case (Some c)
    then show ?thesis
      using assign_C_term_Some[OF s2(1) s2(2) neN] by (simp add: s3_def dC df2_def codeC)
  qed
  have run: "add_terminal_embeddings N_term_arg C_term_arg (s, w) = (Return (), s3, w)"
    by (simp add: add_terminal_embeddings_def df Let_def s1_def[symmetric] nph cph)
  have s3: "cg_dataframe s3 = Some df2" "embedding_dict s3 = Some dC"
    "N_term s3 = Some N_term_arg" "C_term s3 = Some C_term_arg"
    by (simp_all add: s3_def s2)
  have len2: "length df2 = length df"
    by (simp add: df2_def length_set_types len1 split: option.split)
  have mx: "at_chain_max df1 i = at_chain_max df i" if "i < length df" for i
    by (rule at_chain_max_cong[OF len1 _ that]) (simp add: row1)
  have row2: "df2 ! i = (df ! i)\<lparr>type :=
                 (if C_term_arg = Some (name (df ! i)) \<and> at_chain_max df i then codeC
                  else if N_term_arg = Some (name (df ! i)) \<and> at_chain_min df i then codeN
                  else type (df ! i))\<rparr>" if "i < length df" for i
  proof (cases C_term_arg)
    case None
    then show ?thesis using that by (simp add: df2_def row1)
  next
    case (Some c)
    have "df2 ! i = (df1 ! i)\<lparr>type := (if name (df1 ! i) = c \<and> at_chain_max df1 i then codeC
                                         else type (df1 ! i))\<rparr>"
      using that len1 Some by (simp add: df2_def C_phase_row)
    then show ?thesis using that Some by (simp add: row1 mx)
  qed
  have fN: "map_of d ''N_term'' = None \<longrightarrow> codeN \<notin> set (map snd d)"
    using lazy_code_fresh[of d "''N_term''"] by (simp add: codeN)
  have fC: "map_of dN ''C_term'' = None \<longrightarrow> codeC \<notin> set (map snd dN)"
    using lazy_code_fresh[of dN "''C_term''"] by (simp add: codeC)
  have rows: "\<forall>i < length df.
               df2 ! i = (df ! i)\<lparr>type :=
                 (if C_term_arg = Some (name (df ! i)) \<and> at_chain_max df i then codeC
                  else if N_term_arg = Some (name (df ! i)) \<and> at_chain_min df i then codeN
                  else type (df ! i))\<rparr>"
    using row2 by blast
  show ?thesis
    by (intro exI[of _ s3] exI[of _ df2] conjI run s3 len2 rows fN fC)
qed


theorem add_terminal_embeddings_codes_witness:
  "(\<exists>s' df'.
      add_terminal_embeddings (Some ''N'') None (demo_cg_dimer_collection, demo_world)
        = (Return (), s', demo_world)
    \<and> N_term s' = Some (Some ''N'') \<and> C_term s' = Some None
    \<and> embedding_dict s' = Some (demo_embedding @ [(''N_term'', 4)])
    \<and> cg_dataframe s' = Some df' \<and> length df' = 12
    \<and> type (df' ! 0) = 4 \<and> type (df' ! 6) = 4 \<and> type (df' ! 3) = 1 \<and> type (df' ! 9) = 1
    \<and> type (df' ! 2) = 3 \<and> type (df' ! 11) = 3)
   \<and> map_option (map type)
        (cg_dataframe (fst (snd (add_terminal_embeddings (Some ''N'') None
           (demo_cg_dimer_collection, demo_world)))))
       = Some [4, 2, 3, 1, 2, 3, 4, 2, 3, 1, 2, 3]
   \<and> 4 \<notin> set (map snd demo_embedding)"
proof -
  have df: "cg_dataframe demo_cg_dimer_collection = Some demo_cg_dimer"
    and d: "embedding_dict demo_cg_dimer_collection = Some demo_embedding"
    by (simp_all add: demo_cg_dimer_collection_def SampleCollection_init_def)
  have ne: "demo_embedding \<noteq> []"
    by (simp add: demo_embedding_def)
  have dN: "demo_embedding @ [(''N_term'', 4)]
              = (case Some ''N'' of None \<Rightarrow> demo_embedding
                 | Some n \<Rightarrow> with_lazy_code ''N_term'' demo_embedding)"
    by code_simp
  have dC: "demo_embedding @ [(''N_term'', 4)]
              = (case (None :: string option) of None \<Rightarrow> demo_embedding @ [(''N_term'', 4)]
                 | Some c \<Rightarrow> with_lazy_code ''C_term'' (demo_embedding @ [(''N_term'', 4)]))"
    by simp
  have cN: "4 = lazy_code ''N_term'' demo_embedding"
    by code_simp
  have cC: "5 = lazy_code ''C_term'' (demo_embedding @ [(''N_term'', 4)])"
    by code_simp
  have ab: "map_of demo_embedding ''N_term'' = None"
    by code_simp
  obtain s' df' where run: "add_terminal_embeddings (Some ''N'') None (demo_cg_dimer_collection, demo_world)
                              = (Return (), s', demo_world)"
    and st: "N_term s' = Some (Some ''N'')" "C_term s' = Some None"
      "embedding_dict s' = Some (demo_embedding @ [(''N_term'', 4)])"
      "cg_dataframe s' = Some df'" "length df' = length demo_cg_dimer"
    and rows: "\<forall>i < length demo_cg_dimer.
                 df' ! i = (demo_cg_dimer ! i)\<lparr>type :=
                   (if None = Some (name (demo_cg_dimer ! i)) \<and> at_chain_max demo_cg_dimer i then 5
                    else if Some ''N'' = Some (name (demo_cg_dimer ! i)) \<and> at_chain_min demo_cg_dimer i
                         then 4 else type (demo_cg_dimer ! i))\<rparr>"
    and fresh: "map_of demo_embedding ''N_term'' = None \<longrightarrow> 4 \<notin> set (map snd demo_embedding)"
    using add_terminal_embeddings_codes[OF df d ne dN dC cN cC, of demo_world]
    by (elim exE conjE) (rule that, assumption+)
  have len: "length demo_cg_dimer = 12"
    by code_simp
  have nm: "name (demo_cg_dimer ! 0) = ''N''" "name (demo_cg_dimer ! 6) = ''N''"
    "name (demo_cg_dimer ! 3) = ''N''" "name (demo_cg_dimer ! 9) = ''N''"
    "name (demo_cg_dimer ! 2) = ''C''" "name (demo_cg_dimer ! 11) = ''C''"
    by code_simp+
  have mn: "at_chain_min demo_cg_dimer 0" "at_chain_min demo_cg_dimer 6"
    "\<not> at_chain_min demo_cg_dimer 3" "\<not> at_chain_min demo_cg_dimer 9"
    by code_simp+
  have ty: "type (demo_cg_dimer ! 3) = 1" "type (demo_cg_dimer ! 9) = 1"
    "type (demo_cg_dimer ! 2) = 3" "type (demo_cg_dimer ! 11) = 3"
    by code_simp+
  have r: "type (df' ! 0) = 4" "type (df' ! 6) = 4" "type (df' ! 3) = 1" "type (df' ! 9) = 1"
    "type (df' ! 2) = 3" "type (df' ! 11) = 3"
    using rows[rule_format, of 0] rows[rule_format, of 6] rows[rule_format, of 3]
      rows[rule_format, of 9] rows[rule_format, of 2] rows[rule_format, of 11]
    by (simp_all add: len nm mn ty)
  have ev: "map_option (map type)
        (cg_dataframe (fst (snd (add_terminal_embeddings (Some ''N'') None
           (demo_cg_dimer_collection, demo_world)))))
       = Some [4, 2, 3, 1, 2, 3, 4, 2, 3, 1, 2, 3]"
    by code_simp
  have "\<exists>s' df'.
      add_terminal_embeddings (Some ''N'') None (demo_cg_dimer_collection, demo_world)
        = (Return (), s', demo_world)
    \<and> N_term s' = Some (Some ''N'') \<and> C_term s' = Some None
    \<and> embedding_dict s' = Some (demo_embedding @ [(''N_term'', 4)])
    \<and> cg_dataframe s' = Some df' \<and> length df' = 12
    \<and> type (df' ! 0) = 4 \<and> type (df' ! 6) = 4 \<and> type (df' ! 3) = 1 \<and> type (df' ! 9) = 1
    \<and> type (df' ! 2) = 3 \<and> type (df' ! 11) = 3"
    using run st r len by auto
  then show ?thesis
    using ev fresh ab by blast
qed


end
